theory Spec2Isabelle
  imports Main "HOL-Library.Sublist"
begin

section \<open>Path strings (Go \<open>path\<close> and \<open>path/filepath\<close>, separator \<open>/\<close>)\<close>

text \<open>
  The program handles paths as strings and hands them to \<open>filepath.Join\<close>, \<open>filepath.Abs\<close>,
  \<open>filepath.ToSlash\<close> and (through the SFTP walker) \<open>path.Join\<close>. They are modelled as of
  the Go standard library on a system whose separator is \<open>/\<close>: \<open>Join\<close> glues its non-empty
  arguments with \<open>/\<close> and returns the \<open>Clean\<close> of the result.
\<close>

type_synonym path = "string list"

fun split_sep :: "string \<Rightarrow> string list" where
  "split_sep [] = [[]]"
| "split_sep (c # cs) =
     (if c = CHR ''/'' then [] # split_sep cs
      else (case split_sep cs of [] \<Rightarrow> [[c]] | x # xs \<Rightarrow> (c # x) # xs))"

fun join_sep :: "string list \<Rightarrow> string" where
  "join_sep [] = []"
| "join_sep [c] = c"
| "join_sep (c # d # cs) = c @ ''/'' @ join_sep (d # cs)"

definition rooted :: "string \<Rightarrow> bool" where
  "rooted s = (case s of [] \<Rightarrow> False | c # _ \<Rightarrow> c = CHR ''/'')"

definition elements :: "string \<Rightarrow> string list" where
  "elements s = filter (\<lambda>c. c \<noteq> [] \<and> c \<noteq> ''.'') (split_sep s)"

text \<open>
  \<open>dotdot r st cs\<close>: the elements kept so far are \<open>st\<close>; a \<open>..\<close> removes the element before
  it unless that is a \<open>..\<close> itself, is dropped at the start of a rooted path and is kept at
  the start of a relative one.
\<close>

fun dotdot :: "bool \<Rightarrow> string list \<Rightarrow> string list \<Rightarrow> string list" where
  "dotdot r st [] = st"
| "dotdot r st (c # cs) =
     (if c = ''..'' then
        (if st \<noteq> [] \<and> last st \<noteq> ''..'' then dotdot r (butlast st) cs
         else if r then dotdot r st cs
         else dotdot r (st @ [c]) cs)
      else dotdot r (st @ [c]) cs)"

definition Clean :: "string \<Rightarrow> string" where
  "Clean s =
     (if s = [] then ''.''
      else let out = (if rooted s then ''/'' else []) @ join_sep (dotdot (rooted s) [] (elements s))
           in if out = [] then ''.'' else out)"

definition Join :: "string \<Rightarrow> string \<Rightarrow> string" where
  "Join a b =
     (if a \<noteq> [] then Clean (a @ ''/'' @ b)
      else if b \<noteq> [] then Clean b
      else [])"

definition ToSlash :: "string \<Rightarrow> string" where
  "ToSlash s = s"

section \<open>The file systems\<close>

text \<open>
  A file system is a tree of directories and regular files, the working directory of the
  process (or of the SFTP session) and a fault oracle: \<open>fault op s\<close> is the error with
  which the operation \<open>op\<close> on the path string \<open>s\<close> fails for a reason outside the tree
  (permissions, input/output errors), if any. Bytes are \<open>char\<close>s; a node carries its
  permission bits (the umask is not applied). Symbolic links and special files are outside
  the model.
\<close>

datatype errno = ENOENT | ENOTDIR | EISDIR | EEXIST | EACCES | EIO | ENOSPC

datatype sysop = OpStat | OpMkdir | OpReadDir | OpOpen | OpCreate | OpRead | OpWrite | OpGetwd

datatype node = File nat string | Dir nat "(string \<times> node) list"

record fsys =
  tree :: node
  wd :: path
  fault :: "sysop \<Rightarrow> string \<Rightarrow> errno option"

record FileInfo =
  Name :: string
  IsDir :: bool
  Mode :: nat

fun lookup :: "node \<Rightarrow> path \<Rightarrow> node option" where
  "lookup t [] = Some t"
| "lookup (File m b) (c # cs) = None"
| "lookup (Dir m es) (c # cs) =
     (case map_of es c of None \<Rightarrow> None | Some t \<Rightarrow> lookup t cs)"

text \<open>
  A table of named entries is an association list read through \<open>map_of\<close>; \<open>set_key\<close> stores
  a value under a name, in the place of the pair of that name or as a new last pair.
\<close>

fun set_key :: "string \<Rightarrow> 'v \<Rightarrow> (string \<times> 'v) list \<Rightarrow> (string \<times> 'v) list" where
  "set_key k v [] = [(k, v)]"
| "set_key k v ((d, u) # es) = (if k = d then (d, v) # es else (d, u) # set_key k v es)"

text \<open>
  \<open>put t p n\<close> stores the node \<open>n\<close> at \<open>p\<close>, as a new last entry of its parent directory or
  in the place of the entry of that name. The operations below call it only when the
  parent of \<open>p\<close> is a directory.
\<close>

fun put :: "node \<Rightarrow> path \<Rightarrow> node \<Rightarrow> node" where
  "put t [] n = n"
| "put (File m b) (c # cs) n = File m b"
| "put (Dir m es) (c # cs) n =
     (case map_of es c of
        None \<Rightarrow> (if cs = [] then Dir m (set_key c n es) else Dir m es)
      | Some t \<Rightarrow> Dir m (set_key c (put t cs n) es))"

text \<open>
  Path resolution walks the elements of the string from the root (a rooted path) or from
  the working directory: every position it leaves must be a directory; \<open>..\<close> steps to the
  parent (the root is its own parent); the last position need not exist.
\<close>

fun walk :: "node \<Rightarrow> path \<Rightarrow> string list \<Rightarrow> errno + path" where
  "walk t cur [] = Inr cur"
| "walk t cur (c # cs) =
     (case lookup t cur of
        None \<Rightarrow> Inl ENOENT
      | Some (File m b) \<Rightarrow> Inl ENOTDIR
      | Some (Dir m es) \<Rightarrow> walk t (if c = ''..'' then butlast cur else cur @ [c]) cs)"

definition namei :: "fsys \<Rightarrow> string \<Rightarrow> errno + path" where
  "namei fs s =
     (if s = [] then Inl ENOENT
      else walk (tree fs) (if rooted s then [] else wd fs) (elements s))"


text \<open>Go's \<open>error\<close> values, and the text \<open>%v\<close> prints for them.\<close>

datatype error =
    PathError string string errno
  | SyntaxError
  | UnmarshalTypeError
  | KeyError string
  | DialError string
  | SessionError string
  | Wrapped string error

fun errno_text :: "errno \<Rightarrow> string" where
  "errno_text ENOENT = ''no such file or directory''"
| "errno_text ENOTDIR = ''not a directory''"
| "errno_text EISDIR = ''is a directory''"
| "errno_text EEXIST = ''file exists''"
| "errno_text EACCES = ''permission denied''"
| "errno_text EIO = ''input/output error''"
| "errno_text ENOSPC = ''no space left on device''"

fun error_text :: "error \<Rightarrow> string" where
  "error_text (PathError opn s e) = opn @ '' '' @ s @ '': '' @ errno_text e"
| "error_text SyntaxError = ''invalid JSON''"
| "error_text UnmarshalTypeError = ''json: cannot unmarshal value''"
| "error_text (KeyError m) = m"
| "error_text (DialError m) = m"
| "error_text (SessionError m) = m"
| "error_text (Wrapped m e) = m @ error_text e"

definition info_of :: "string \<Rightarrow> node \<Rightarrow> FileInfo" where
  "info_of nm n =
     (case n of File m b \<Rightarrow> \<lparr>Name = nm, IsDir = False, Mode = m\<rparr>
              | Dir m es \<Rightarrow> \<lparr>Name = nm, IsDir = True, Mode = m\<rparr>)"

definition base_name :: "path \<Rightarrow> string" where
  "base_name p = (if p = [] then ''/'' else last p)"

definition Stat :: "fsys \<Rightarrow> string \<Rightarrow> error + FileInfo" where
  "Stat fs s =
     (case fault fs OpStat s of
        Some e \<Rightarrow> Inl (PathError ''stat'' s e)
      | None \<Rightarrow>
          (case namei fs s of
             Inl e \<Rightarrow> Inl (PathError ''stat'' s e)
           | Inr p \<Rightarrow>
               (case lookup (tree fs) p of
                  None \<Rightarrow> Inl (PathError ''stat'' s ENOENT)
                | Some n \<Rightarrow> Inr (info_of (base_name p) n))))"

text \<open>
  \<open>os.MkdirAll\<close>: every element of the path that is missing is created as a directory
  with the given permission bits; an element that is a regular file is an error.
\<close>

fun mkdirs :: "nat \<Rightarrow> node \<Rightarrow> path \<Rightarrow> string list \<Rightarrow> errno + node" where
  "mkdirs perm t cur [] =
     (case lookup t cur of
        None \<Rightarrow> Inl ENOENT
      | Some (File m b) \<Rightarrow> Inl ENOTDIR
      | Some (Dir m es) \<Rightarrow> Inr t)"
| "mkdirs perm t cur (c # cs) =
     (case lookup t cur of
        None \<Rightarrow> Inl ENOENT
      | Some (File m b) \<Rightarrow> Inl ENOTDIR
      | Some (Dir m es) \<Rightarrow>
          (if c = ''..'' then mkdirs perm t (butlast cur) cs
           else (case map_of es c of
                   None \<Rightarrow> mkdirs perm (put t (cur @ [c]) (Dir perm [])) (cur @ [c]) cs
                 | Some n \<Rightarrow> mkdirs perm t (cur @ [c]) cs)))"

definition MkdirAll :: "fsys \<Rightarrow> string \<Rightarrow> nat \<Rightarrow> error + fsys" where
  "MkdirAll fs s perm =
     (case fault fs OpMkdir s of
        Some e \<Rightarrow> Inl (PathError ''mkdir'' s e)
      | None \<Rightarrow>
          (if s = [] then Inl (PathError ''mkdir'' s ENOENT)
           else (case mkdirs perm (tree fs) (if rooted s then [] else wd fs) (elements s) of
                   Inl e \<Rightarrow> Inl (PathError ''mkdir'' s e)
                 | Inr t \<Rightarrow> Inr (fs\<lparr>tree := t\<rparr>))))"

text \<open>Byte-wise order of strings, and the sort by file name of \<open>ioutil.ReadDir\<close>.\<close>

fun str_less :: "string \<Rightarrow> string \<Rightarrow> bool" where
  "str_less [] [] = False"
| "str_less [] (y # ys) = True"
| "str_less (x # xs) [] = False"
| "str_less (x # xs) (y # ys) =
     (if x = y then str_less xs ys else (of_char x :: nat) < of_char y)"

fun insert_by_name :: "FileInfo \<Rightarrow> FileInfo list \<Rightarrow> FileInfo list" where
  "insert_by_name f [] = [f]"
| "insert_by_name f (g # gs) =
     (if str_less (Name f) (Name g) then f # g # gs else g # insert_by_name f gs)"

definition sort_by_name :: "FileInfo list \<Rightarrow> FileInfo list" where
  "sort_by_name fs = foldr insert_by_name fs []"

definition list_dir :: "fsys \<Rightarrow> string \<Rightarrow> error + FileInfo list" where
  "list_dir fs s =
     (case fault fs OpReadDir s of
        Some e \<Rightarrow> Inl (PathError ''open'' s e)
      | None \<Rightarrow>
          (case namei fs s of
             Inl e \<Rightarrow> Inl (PathError ''open'' s e)
           | Inr p \<Rightarrow>
               (case lookup (tree fs) p of
                  None \<Rightarrow> Inl (PathError ''open'' s ENOENT)
                | Some (File m b) \<Rightarrow> Inl (PathError ''readdirent'' s ENOTDIR)
                | Some (Dir m es) \<Rightarrow> Inr (map (\<lambda>e. info_of (fst e) (snd e)) es))))"

definition ReadDir :: "fsys \<Rightarrow> string \<Rightarrow> error + FileInfo list" where
  "ReadDir fs s = (case list_dir fs s of Inl e \<Rightarrow> Inl e | Inr fs \<Rightarrow> Inr (sort_by_name fs))"

text \<open>
  An open file is the name it was opened under and the place it resolved to. \<open>os.Open\<close>
  opens a directory as well; reading from it fails.
\<close>

type_synonym handle = "string \<times> path"

definition Open :: "fsys \<Rightarrow> string \<Rightarrow> error + handle" where
  "Open fs s =
     (case fault fs OpOpen s of
        Some e \<Rightarrow> Inl (PathError ''open'' s e)
      | None \<Rightarrow>
          (case namei fs s of
             Inl e \<Rightarrow> Inl (PathError ''open'' s e)
           | Inr p \<Rightarrow>
               (case lookup (tree fs) p of
                  None \<Rightarrow> Inl (PathError ''open'' s ENOENT)
                | Some n \<Rightarrow> Inr (s, p))))"

text \<open>
  \<open>os.OpenFile\<close> with \<open>O_CREATE|O_TRUNC\<close>: an existing regular file is emptied and keeps
  its permission bits, a missing one is created in its parent directory.
\<close>

definition open_trunc :: "fsys \<Rightarrow> string \<Rightarrow> nat \<Rightarrow> error + handle \<times> fsys" where
  "open_trunc fs s perm =
     (case fault fs OpCreate s of
        Some e \<Rightarrow> Inl (PathError ''open'' s e)
      | None \<Rightarrow>
          (case namei fs s of
             Inl e \<Rightarrow> Inl (PathError ''open'' s e)
           | Inr p \<Rightarrow>
               (case lookup (tree fs) p of
                  Some (Dir m es) \<Rightarrow> Inl (PathError ''open'' s EISDIR)
                | Some (File m b) \<Rightarrow> Inr ((s, p), fs\<lparr>tree := put (tree fs) p (File m [])\<rparr>)
                | None \<Rightarrow> Inr ((s, p), fs\<lparr>tree := put (tree fs) p (File perm [])\<rparr>))))"

definition Create :: "fsys \<Rightarrow> string \<Rightarrow> error + handle \<times> fsys" where
  "Create fs s = open_trunc fs s 438"

definition read_all :: "fsys \<Rightarrow> handle \<Rightarrow> error + string" where
  "read_all fs h =
     (case fault fs OpRead (fst h) of
        Some e \<Rightarrow> Inl (PathError ''read'' (fst h) e)
      | None \<Rightarrow>
          (case lookup (tree fs) (snd h) of
             Some (File m b) \<Rightarrow> Inr b
           | Some (Dir m es) \<Rightarrow> Inl (PathError ''read'' (fst h) EISDIR)
           | None \<Rightarrow> Inl (PathError ''read'' (fst h) EIO)))"

definition write_all :: "fsys \<Rightarrow> handle \<Rightarrow> string \<Rightarrow> error option \<times> fsys" where
  "write_all fs h b =
     (case fault fs OpWrite (fst h) of
        Some e \<Rightarrow> (Some (PathError ''write'' (fst h) e), fs)
      | None \<Rightarrow>
          (case lookup (tree fs) (snd h) of
             Some (File m old) \<Rightarrow> (None, fs\<lparr>tree := put (tree fs) (snd h) (File m b)\<rparr>)
           | Some (Dir m es) \<Rightarrow> (Some (PathError ''write'' (fst h) EISDIR), fs)
           | None \<Rightarrow> (Some (PathError ''write'' (fst h) EIO), fs)))"

text \<open>
  \<open>io.Copy(dst, src)\<close>: all bytes of the source are read, then written to the
  destination; a failing read or write transfers nothing. The source and the destination
  may live in different file systems (a download, an upload).
\<close>

definition io_Copy :: "fsys \<Rightarrow> handle \<Rightarrow> fsys \<Rightarrow> handle \<Rightarrow> error option \<times> fsys" where
  "io_Copy dfs dst sfs src =
     (case read_all sfs src of
        Inl e \<Rightarrow> (Some e, dfs)
      | Inr b \<Rightarrow> write_all dfs dst b)"

definition WriteFile :: "fsys \<Rightarrow> string \<Rightarrow> string \<Rightarrow> nat \<Rightarrow> error option \<times> fsys" where
  "WriteFile fs s b perm =
     (case open_trunc fs s perm of
        Inl e \<Rightarrow> (Some e, fs)
      | Inr (f, fs1) \<Rightarrow> write_all fs1 f b)"

definition Getwd :: "fsys \<Rightarrow> error + string" where
  "Getwd fs =
     (case fault fs OpGetwd [] of
        Some e \<Rightarrow> Inl (PathError ''getwd'' [] e)
      | None \<Rightarrow> Inr (''/'' @ join_sep (wd fs)))"

definition Abs :: "fsys \<Rightarrow> string \<Rightarrow> error + string" where
  "Abs fs s =
     (if rooted s then Inr (Clean s)
      else (case Getwd fs of Inl e \<Rightarrow> Inl e | Inr d \<Rightarrow> Inr (Join d s)))"


section \<open>The configuration and its JSON form (Go \<open>encoding/json\<close>)\<close>

record Repository =
  Type :: string
  Path :: string
  Host :: string
  Port :: nat
  User :: string
  PrivateKey :: string
  Password :: string

text \<open>
  A Go map is nil or a finite table, read through \<open>map_of\<close> and written through \<open>set_key\<close>,
  which keeps one pair per key.
\<close>

record Config =
  Current :: string
  Repositories :: "(string \<times> Repository) list option"

definition zero_Repository :: Repository where
  "zero_Repository =
     \<lparr>Type = [], Path = [], Host = [], Port = 0, User = [], PrivateKey = [], Password = []\<rparr>"

definition zero_Config :: Config where
  "zero_Config = \<lparr>Current = [], Repositories = None\<rparr>"

text \<open>\<open>m[k]\<close> with its \<open>ok\<close> flag: the zero value when the key is absent or the map is nil.\<close>

definition map_index :: "(string \<times> Repository) list option \<Rightarrow> string \<Rightarrow> Repository \<times> bool" where
  "map_index m k =
     (case m of
        None \<Rightarrow> (zero_Repository, False)
      | Some al \<Rightarrow> (case map_of al k of None \<Rightarrow> (zero_Repository, False) | Some r \<Rightarrow> (r, True)))"

subsection \<open>Reading JSON text\<close>

datatype json =
    JNull
  | JBool bool
  | JNum string
  | JStr string
  | JArr "json list"
  | JObj "(string \<times> json) list"

definition is_ws :: "char \<Rightarrow> bool" where
  "is_ws c = (c = CHR '' '' \<or> c = CHR 0x09 \<or> c = CHR 0x0A \<or> c = CHR 0x0D)"

definition skip_ws :: "string \<Rightarrow> string" where
  "skip_ws s = dropWhile is_ws s"

definition is_digit :: "char \<Rightarrow> bool" where
  "is_digit c = (48 \<le> (of_char c :: nat) \<and> (of_char c :: nat) \<le> 57)"

definition hex_val :: "char \<Rightarrow> nat option" where
  "hex_val c =
     (let n = (of_char c :: nat)
      in if 48 \<le> n \<and> n \<le> 57 then Some (n - 48)
         else if 97 \<le> n \<and> n \<le> 102 then Some (n - 87)
         else if 65 \<le> n \<and> n \<le> 70 then Some (n - 55)
         else None)"

definition utf8 :: "nat \<Rightarrow> string" where
  "utf8 cp =
     (if cp < 128 then [char_of cp]
      else if cp < 2048 then [char_of (192 + cp div 64), char_of (128 + cp mod 64)]
      else if cp < 65536 then
        [char_of (224 + cp div 4096), char_of (128 + (cp div 64) mod 64), char_of (128 + cp mod 64)]
      else
        [char_of (240 + cp div 262144), char_of (128 + (cp div 4096) mod 64),
         char_of (128 + (cp div 64) mod 64), char_of (128 + cp mod 64)])"

text \<open>
  A string literal is first cut into its units, a byte or the code unit of a \<open>\u\<close> escape;
  two adjacent escapes that form a surrogate pair give one code point, a lone surrogate
  gives U+FFFD. (The decoder's replacement of invalid UTF-8 in unescaped bytes is not
  modelled.)
\<close>

datatype cunit = Byte char | Esc nat

fun scan_units :: "cunit list \<Rightarrow> string \<Rightarrow> (cunit list \<times> string) option" where
  "scan_units acc [] = None"
| "scan_units acc (c # r) =
     (if c = CHR 0x22 then Some (acc, r)
      else if (of_char c :: nat) < 32 then None
      else if c = CHR 0x5C then
        (case r of
           [] \<Rightarrow> None
         | e # r1 \<Rightarrow>
             (if e = CHR 0x22 \<or> e = CHR 0x5C \<or> e = CHR ''/'' then scan_units (acc @ [Byte e]) r1
              else if e = CHR ''b'' then scan_units (acc @ [Byte (CHR 0x08)]) r1
              else if e = CHR ''f'' then scan_units (acc @ [Byte (CHR 0x0C)]) r1
              else if e = CHR ''n'' then scan_units (acc @ [Byte (CHR 0x0A)]) r1
              else if e = CHR ''r'' then scan_units (acc @ [Byte (CHR 0x0D)]) r1
              else if e = CHR ''t'' then scan_units (acc @ [Byte (CHR 0x09)]) r1
              else if e = CHR ''u'' then
                (case r1 of
                   a # b # c # d # r2 \<Rightarrow>
                     (case (hex_val a, hex_val b, hex_val c, hex_val d) of
                        (Some x, Some y, Some z, Some w) \<Rightarrow>
                          scan_units (acc @ [Esc (4096 * x + 256 * y + 16 * z + w)]) r2
                      | _ \<Rightarrow> None)
                 | _ \<Rightarrow> None)
              else None))
      else scan_units (acc @ [Byte c]) r)"

definition surrogate :: "nat \<Rightarrow> bool" where
  "surrogate u = (55296 \<le> u \<and> u < 57344)"

fun encode_units :: "cunit list \<Rightarrow> string" where
  "encode_units [] = []"
| "encode_units (Byte c # r) = c # encode_units r"
| "encode_units (Esc h # Esc l # r) =
     (if 55296 \<le> h \<and> h < 56320 \<and> 56320 \<le> l \<and> l < 57344
      then utf8 (65536 + (h - 55296) * 1024 + (l - 56320)) @ encode_units r
      else (if surrogate h then utf8 65533 else utf8 h) @ encode_units (Esc l # r))"
| "encode_units (Esc h # r) = (if surrogate h then utf8 65533 else utf8 h) @ encode_units r"

definition scan_digits :: "string \<Rightarrow> (string \<times> string) option" where
  "scan_digits s =
     (if takeWhile is_digit s = [] then None else Some (takeWhile is_digit s, dropWhile is_digit s))"

definition scan_int :: "string \<Rightarrow> (string \<times> string) option" where
  "scan_int s =
     (case s of
        [] \<Rightarrow> None
      | c # r \<Rightarrow> if c = CHR ''0'' then Some ([c], r) else scan_digits s)"

definition scan_frac :: "string \<Rightarrow> (string \<times> string) option" where
  "scan_frac s =
     (case s of
        [] \<Rightarrow> Some ([], s)
      | c # r \<Rightarrow>
          if c = CHR ''.'' then map_option (\<lambda>(d, r'). (c # d, r')) (scan_digits r)
          else Some ([], s))"

definition scan_exp :: "string \<Rightarrow> (string \<times> string) option" where
  "scan_exp s =
     (case s of
        [] \<Rightarrow> Some ([], s)
      | c # r \<Rightarrow>
          if c = CHR ''e'' \<or> c = CHR ''E'' then
            (case r of
               [] \<Rightarrow> None
             | g # r' \<Rightarrow>
                 if g = CHR ''+'' \<or> g = CHR ''-''
                 then map_option (\<lambda>(d, r''). (c # g # d, r'')) (scan_digits r')
                 else map_option (\<lambda>(d, r''). (c # d, r'')) (scan_digits r))
          else Some ([], s))"

definition scan_number :: "string \<Rightarrow> (string \<times> string) option" where
  "scan_number s =
     (let (sgn, s0) = (case s of [] \<Rightarrow> ([], s) | c # r \<Rightarrow> if c = CHR ''-'' then ([c], r) else ([], s))
      in case scan_int s0 of
           None \<Rightarrow> None
         | Some (i, s1) \<Rightarrow>
             (case scan_frac s1 of
                None \<Rightarrow> None
              | Some (f, s2) \<Rightarrow>
                  (case scan_exp s2 of
                     None \<Rightarrow> None
                   | Some (e, s3) \<Rightarrow> Some (sgn @ i @ f @ e, s3))))"

definition scan_literal :: "string \<Rightarrow> (json \<times> string) option" where
  "scan_literal s =
     (if take 4 s = ''true'' then Some (JBool True, drop 4 s)
      else if take 5 s = ''false'' then Some (JBool False, drop 5 s)
      else if take 4 s = ''null'' then Some (JNull, drop 4 s)
      else None)"

text \<open>
  The recursive descent over values, array elements and object members. The first argument
  bounds the number of nested calls; \<open>json_parse\<close> starts it above what a text of its
  length can need. (The decoder's own nesting limit of 10000 is not modelled.)
\<close>

fun parse_value :: "nat \<Rightarrow> string \<Rightarrow> (json \<times> string) option"
  and parse_elems :: "nat \<Rightarrow> json list \<Rightarrow> string \<Rightarrow> (json \<times> string) option"
  and parse_members :: "nat \<Rightarrow> (string \<times> json) list \<Rightarrow> string \<Rightarrow> (json \<times> string) option"
where
  "parse_value 0 s = None"
| "parse_value (Suc n) s =
     (case skip_ws s of
        [] \<Rightarrow> None
      | c # r \<Rightarrow>
          (if c = CHR ''{'' then
             (case skip_ws r of
                [] \<Rightarrow> None
              | d # r' \<Rightarrow> if d = CHR ''}'' then Some (JObj [], r') else parse_members n [] r)
           else if c = CHR ''['' then
             (case skip_ws r of
                [] \<Rightarrow> None
              | d # r' \<Rightarrow> if d = CHR '']'' then Some (JArr [], r') else parse_elems n [] r)
           else if c = CHR 0x22 then
             map_option (\<lambda>(u, r'). (JStr (encode_units u), r')) (scan_units [] r)
           else if c = CHR ''-'' \<or> is_digit c then
             map_option (\<lambda>(l, r'). (JNum l, r')) (scan_number (c # r))
           else scan_literal (c # r)))"
| "parse_elems 0 acc s = None"
| "parse_elems (Suc n) acc s =
     (case parse_value n s of
        None \<Rightarrow> None
      | Some (v, r) \<Rightarrow>
          (case skip_ws r of
             [] \<Rightarrow> None
           | d # r' \<Rightarrow>
               if d = CHR '','' then parse_elems n (acc @ [v]) r'
               else if d = CHR '']'' then Some (JArr (acc @ [v]), r')
               else None))"
| "parse_members 0 acc s = None"
| "parse_members (Suc n) acc s =
     (case skip_ws s of
        [] \<Rightarrow> None
      | q # r \<Rightarrow>
          if q \<noteq> CHR 0x22 then None
          else
            (case scan_units [] r of
               None \<Rightarrow> None
             | Some (u, r1) \<Rightarrow>
                 (case skip_ws r1 of
                    [] \<Rightarrow> None
                  | col # r2 \<Rightarrow>
                      if col \<noteq> CHR '':'' then None
                      else
                        (case parse_value n r2 of
                           None \<Rightarrow> None
                         | Some (v, r3) \<Rightarrow>
                             (case skip_ws r3 of
                                [] \<Rightarrow> None
                              | d # r4 \<Rightarrow>
                                  if d = CHR '','' then parse_members n (acc @ [(encode_units u, v)]) r4
                                  else if d = CHR ''}'' then Some (JObj (acc @ [(encode_units u, v)]), r4)
                                  else None)))))"

definition json_parse :: "string \<Rightarrow> json option" where
  "json_parse s =
     (case parse_value (2 * length s + 2) s of
        None \<Rightarrow> None
      | Some (v, r) \<Rightarrow> if skip_ws r = [] then Some v else None)"


subsection \<open>Decoding into the configuration (\<open>json.Unmarshal\<close>)\<close>

text \<open>
  An object is decoded member by member in the order of the text, so a later member of the
  same name overwrites an earlier one. A member is matched to a struct field by its name
  without regard to (ASCII) letter case; a member that matches no field is skipped. A
  \<open>null\<close> leaves the destination as it is; a value of the wrong kind is skipped and
  reported at the end. Every map entry is decoded into a zero \<open>Repository\<close>.
\<close>

definition lower :: "char \<Rightarrow> char" where
  "lower c = (if 65 \<le> (of_char c :: nat) \<and> (of_char c :: nat) \<le> 90 then char_of ((of_char c :: nat) + 32) else c)"

definition key_is :: "string \<Rightarrow> string \<Rightarrow> bool" where
  "key_is k name = (map lower k = name)"

definition dec_value :: "string \<Rightarrow> nat" where
  "dec_value l = foldl (\<lambda>a c. 10 * a + ((of_char c :: nat) - 48)) 0 l"

text \<open>
  \<open>strconv.ParseUint(l, 10, 64)\<close>: decimal digits only, and a value of at most
  \<open>18446744073709551615\<close>; the bound is checked on the digits after the leading zeros.
\<close>

definition fits_uint64 :: "string \<Rightarrow> bool" where
  "fits_uint64 l =
     (let d = dropWhile (\<lambda>c. c = CHR ''0'') l
      in length d < 20 \<or> (length d = 20 \<and> \<not> str_less ''18446744073709551615'' d))"

definition parse_uint :: "string \<Rightarrow> nat option" where
  "parse_uint l =
     (if l \<noteq> [] \<and> list_all is_digit l \<and> fits_uint64 l then Some (dec_value l) else None)"

definition decode_string :: "string \<Rightarrow> json \<Rightarrow> string" where
  "decode_string old v = (case v of JStr s \<Rightarrow> s | _ \<Rightarrow> old)"

definition decode_uint :: "nat \<Rightarrow> json \<Rightarrow> nat" where
  "decode_uint old v =
     (case v of JNum l \<Rightarrow> (case parse_uint l of Some n \<Rightarrow> n | None \<Rightarrow> old) | _ \<Rightarrow> old)"

definition decode_repo_member :: "Repository \<Rightarrow> string \<times> json \<Rightarrow> Repository" where
  "decode_repo_member r kv =
     (if key_is (fst kv) ''type'' then r\<lparr>Type := decode_string (Type r) (snd kv)\<rparr>
      else if key_is (fst kv) ''path'' then r\<lparr>Path := decode_string (Path r) (snd kv)\<rparr>
      else if key_is (fst kv) ''host'' then r\<lparr>Host := decode_string (Host r) (snd kv)\<rparr>
      else if key_is (fst kv) ''port'' then r\<lparr>Port := decode_uint (Port r) (snd kv)\<rparr>
      else if key_is (fst kv) ''user'' then r\<lparr>User := decode_string (User r) (snd kv)\<rparr>
      else if key_is (fst kv) ''private_key'' then r\<lparr>PrivateKey := decode_string (PrivateKey r) (snd kv)\<rparr>
      else if key_is (fst kv) ''password'' then r\<lparr>Password := decode_string (Password r) (snd kv)\<rparr>
      else r)"

definition decode_repo :: "json \<Rightarrow> Repository" where
  "decode_repo v = (case v of JObj kvs \<Rightarrow> foldl decode_repo_member zero_Repository kvs | _ \<Rightarrow> zero_Repository)"

definition decode_repos ::
  "(string \<times> Repository) list option \<Rightarrow> json \<Rightarrow> (string \<times> Repository) list option" where
  "decode_repos m v =
     (case v of
        JObj kvs \<Rightarrow>
          Some (foldl (\<lambda>al kv. set_key (fst kv) (decode_repo (snd kv)) al)
                  (case m of None \<Rightarrow> [] | Some al \<Rightarrow> al) kvs)
      | _ \<Rightarrow> m)"

definition decode_config_member :: "Config \<Rightarrow> string \<times> json \<Rightarrow> Config" where
  "decode_config_member c kv =
     (if key_is (fst kv) ''current'' then c\<lparr>Current := decode_string (Current c) (snd kv)\<rparr>
      else if key_is (fst kv) ''repositories'' then c\<lparr>Repositories := decode_repos (Repositories c) (snd kv)\<rparr>
      else c)"

definition decode_config :: "Config \<Rightarrow> json \<Rightarrow> Config" where
  "decode_config c v = (case v of JObj kvs \<Rightarrow> foldl decode_config_member c kvs | _ \<Rightarrow> c)"

text \<open>The values the decoder reports as of the wrong kind.\<close>

definition string_ok :: "json \<Rightarrow> bool" where
  "string_ok v = (case v of JStr s \<Rightarrow> True | JNull \<Rightarrow> True | _ \<Rightarrow> False)"

definition uint_ok :: "json \<Rightarrow> bool" where
  "uint_ok v = (case v of JNum l \<Rightarrow> parse_uint l \<noteq> None | JNull \<Rightarrow> True | _ \<Rightarrow> False)"

definition repo_member_ok :: "string \<times> json \<Rightarrow> bool" where
  "repo_member_ok kv =
     (if key_is (fst kv) ''port'' then uint_ok (snd kv)
      else if key_is (fst kv) ''type'' \<or> key_is (fst kv) ''path'' \<or> key_is (fst kv) ''host''
              \<or> key_is (fst kv) ''user'' \<or> key_is (fst kv) ''private_key'' \<or> key_is (fst kv) ''password''
      then string_ok (snd kv)
      else True)"

definition repo_ok :: "json \<Rightarrow> bool" where
  "repo_ok v = (case v of JObj kvs \<Rightarrow> list_all repo_member_ok kvs | JNull \<Rightarrow> True | _ \<Rightarrow> False)"

definition repos_ok :: "json \<Rightarrow> bool" where
  "repos_ok v = (case v of JObj kvs \<Rightarrow> list_all (\<lambda>kv. repo_ok (snd kv)) kvs | JNull \<Rightarrow> True | _ \<Rightarrow> False)"

definition config_member_ok :: "string \<times> json \<Rightarrow> bool" where
  "config_member_ok kv =
     (if key_is (fst kv) ''current'' then string_ok (snd kv)
      else if key_is (fst kv) ''repositories'' then repos_ok (snd kv)
      else True)"

definition config_ok :: "json \<Rightarrow> bool" where
  "config_ok v = (case v of JObj kvs \<Rightarrow> list_all config_member_ok kvs | JNull \<Rightarrow> True | _ \<Rightarrow> False)"

text \<open>
  \<open>json.Unmarshal(data, &config)\<close>: the text is checked as a whole first, and a text that
  is not JSON leaves \<open>config\<close> untouched.
\<close>

definition Unmarshal :: "string \<Rightarrow> Config \<Rightarrow> error option \<times> Config" where
  "Unmarshal data c =
     (case json_parse data of
        None \<Rightarrow> (Some SyntaxError, c)
      | Some v \<Rightarrow> (if config_ok v then None else Some UnmarshalTypeError, decode_config c v))"

subsection \<open>Encoding the configuration (\<open>json.MarshalIndent(config, "", "  ")\<close>)\<close>

definition nl :: string where
  "nl = [CHR 0x0A]"

definition hex_digit :: "nat \<Rightarrow> char" where
  "hex_digit n = (if n < 10 then char_of (48 + n) else char_of (87 + n))"

text \<open>
  The encoder's escapes of a string's bytes (its escapes of U+2028, U+2029 and of invalid
  UTF-8 are not modelled).
\<close>

definition escape_char :: "char \<Rightarrow> string" where
  "escape_char c =
     (if c = CHR 0x22 \<or> c = CHR 0x5C then [CHR 0x5C, c]
      else if c = CHR 0x08 then [CHR 0x5C, CHR ''b'']
      else if c = CHR 0x0C then [CHR 0x5C, CHR ''f'']
      else if c = CHR 0x0A then [CHR 0x5C, CHR ''n'']
      else if c = CHR 0x0D then [CHR 0x5C, CHR ''r'']
      else if c = CHR 0x09 then [CHR 0x5C, CHR ''t'']
      else if (of_char c :: nat) < 32 \<or> c = CHR ''<'' \<or> c = CHR ''>'' \<or> c = CHR ''&''
      then [CHR 0x5C, CHR ''u'', CHR ''0'', CHR ''0'',
            hex_digit ((of_char c :: nat) div 16), hex_digit ((of_char c :: nat) mod 16)]
      else [c])"

definition quote :: "string \<Rightarrow> string" where
  "quote s = [CHR 0x22] @ concat (map escape_char s) @ [CHR 0x22]"

fun dec :: "nat \<Rightarrow> string" where
  "dec n = (if n < 10 then [char_of (48 + n)] else dec (n div 10) @ [char_of (48 + n mod 10)])"

declare dec.simps [simp del]

fun join_with :: "string \<Rightarrow> string list \<Rightarrow> string" where
  "join_with sep [] = []"
| "join_with sep [x] = x"
| "join_with sep (x # y # xs) = x @ sep @ join_with sep (y # xs)"

definition indent :: "nat \<Rightarrow> string" where
  "indent d = concat (replicate d ''  '')"

definition render_object :: "nat \<Rightarrow> (string \<times> string) list \<Rightarrow> string" where
  "render_object d kvs =
     (if kvs = [] then ''{}''
      else ''{'' @ nl
           @ join_with ('','' @ nl) (map (\<lambda>kv. indent (Suc d) @ quote (fst kv) @ '': '' @ snd kv) kvs)
           @ nl @ indent d @ ''}'')"

text \<open>The fields of a repository in their order; the ones marked \<open>omitempty\<close> only when set.\<close>

definition repo_fields :: "Repository \<Rightarrow> (string \<times> string) list" where
  "repo_fields r =
     [(''type'', quote (Type r))]
     @ (if Path r = [] then [] else [(''path'', quote (Path r))])
     @ (if Host r = [] then [] else [(''host'', quote (Host r))])
     @ (if Port r = 0 then [] else [(''port'', dec (Port r))])
     @ (if User r = [] then [] else [(''user'', quote (User r))])
     @ (if PrivateKey r = [] then [] else [(''private_key'', quote (PrivateKey r))])
     @ (if Password r = [] then [] else [(''password'', quote (Password r))])"

text \<open>The keys of a map, each once, in byte-wise ascending order.\<close>

fun insert_key :: "string \<Rightarrow> string list \<Rightarrow> string list" where
  "insert_key k [] = [k]"
| "insert_key k (x # xs) =
     (if k = x then x # xs
      else if str_less k x then k # x # xs
      else x # insert_key k xs)"

definition sorted_keys :: "(string \<times> 'v) list \<Rightarrow> string list" where
  "sorted_keys al = foldr insert_key (map fst al) []"

definition render_repositories :: "(string \<times> Repository) list option \<Rightarrow> string" where
  "render_repositories m =
     (case m of
        None \<Rightarrow> ''null''
      | Some al \<Rightarrow>
          render_object 1
            (map (\<lambda>k. (k, render_object 2 (repo_fields (fst (map_index (Some al) k))))) (sorted_keys al)))"

definition MarshalIndent :: "Config \<Rightarrow> error + string" where
  "MarshalIndent c =
     Inr (render_object 0
            [(''current'', quote (Current c)), (''repositories'', render_repositories (Repositories c))])"


section \<open>The world of a run\<close>

text \<open>
  A run sees the local file system, the file system of the SFTP server and the standard
  output. Whether a connection is made is up to the network and the server: \<open>dial\<close> is
  the error of \<open>goph.NewConn\<close> for a user, address, port and authentication, \<open>parse_key\<close>
  the error of parsing the bytes of a private key file, \<open>sftp_session\<close> the error of opening
  the SFTP subsystem.
\<close>

datatype auth = PasswordAuth string | KeyAuth string

record world =
  lfs :: fsys
  rfs :: fsys
  dial :: "string \<Rightarrow> string \<Rightarrow> nat \<Rightarrow> auth \<Rightarrow> error option"
  parse_key :: "string \<Rightarrow> error option"
  sftp_session :: "error option"
  out :: "string list"

definition Print :: "world \<Rightarrow> string \<Rightarrow> world" where
  "Print w s = w\<lparr>out := out w @ [s]\<rparr>"

definition squote :: "string \<Rightarrow> string" where
  "squote s = [CHR 0x27] @ s @ [CHR 0x27]"

section \<open>The program\<close>

definition loadConfig :: "world \<Rightarrow> error + Config" where
  "loadConfig w =
     (case Open (lfs w) ''config/config.json'' of
        Inl err \<Rightarrow> Inl err
      | Inr configFile \<Rightarrow>
          (case read_all (lfs w) configFile of
             Inl err \<Rightarrow> Inl err
           | Inr byteValue \<Rightarrow> Inr (snd (Unmarshal byteValue zero_Config))))"

definition saveConfig :: "world \<Rightarrow> Config \<Rightarrow> error option \<times> world" where
  "saveConfig w config =
     (case MarshalIndent config of
        Inl err \<Rightarrow> (Some err, w)
      | Inr byteValue \<Rightarrow>
          (case WriteFile (lfs w) ''config/config.json'' byteValue 420 of
             (err, fs) \<Rightarrow> (err, w\<lparr>lfs := fs\<rparr>)))"

text \<open>
  Go ranges over a map in no fixed order; the model lists the entries in the order of the
  table.
\<close>

definition listRepositories :: "world \<Rightarrow> Config \<Rightarrow> world" where
  "listRepositories w config =
     foldl (\<lambda>w e.
              if fst e = Current config
              then Print w ('' * '' @ fst e @ '' ('' @ Type (snd e) @ '', '' @ Path (snd e) @ '')'' @ nl)
              else Print w (''   '' @ fst e @ '' ('' @ Type (snd e) @ '', '' @ Path (snd e) @ '')'' @ nl))
       (Print w (''Available repositories:'' @ nl))
       (case Repositories config of None \<Rightarrow> [] | Some al \<Rightarrow> al)"

text \<open>
  A command handler returns the status it called \<open>os.Exit\<close> with, or \<open>None\<close> when it
  returned to \<open>main\<close>, the configuration as it left it, and the world.
\<close>

definition setRepository :: "world \<Rightarrow> Config \<Rightarrow> string \<Rightarrow> nat option \<times> Config \<times> world" where
  "setRepository w config name =
     (if \<not> snd (map_index (Repositories config) name)
      then (Some 1, config, Print w (''Repository '' @ squote name @ '' not found.'' @ nl))
      else
        (case saveConfig w (config\<lparr>Current := name\<rparr>) of
           (Some err, w') \<Rightarrow>
             (Some 1, config\<lparr>Current := name\<rparr>,
              Print w' (''Error saving configuration: '' @ error_text err @ nl))
         | (None, w') \<Rightarrow>
             (None, config\<lparr>Current := name\<rparr>,
              Print w' (''Current repository set to '' @ squote name @ ''.'' @ nl))))"

definition print_files :: "world \<Rightarrow> FileInfo list \<Rightarrow> world" where
  "print_files w files =
     foldl (\<lambda>w file. if IsDir file then Print w (Name file @ ''/'' @ nl) else Print w (Name file @ nl))
       w files"

text \<open>\<open>goph.Key\<close> reads and parses the private key file; the passphrase is empty.\<close>

definition Key :: "world \<Rightarrow> string \<Rightarrow> error + auth" where
  "Key w prvFile =
     (case Open (lfs w) prvFile of
        Inl err \<Rightarrow> Inl err
      | Inr f \<Rightarrow>
          (case read_all (lfs w) f of
             Inl err \<Rightarrow> Inl err
           | Inr b \<Rightarrow> (case parse_key w b of Some err \<Rightarrow> Inl err | None \<Rightarrow> Inr (KeyAuth b))))"

definition getSSHClient :: "world \<Rightarrow> Repository \<Rightarrow> error + unit" where
  "getSSHClient w repo =
     (case (if Password repo \<noteq> [] then Inr (PasswordAuth (Password repo))
            else Key w (PrivateKey repo)) of
        Inl err \<Rightarrow> Inl err
      | Inr auth \<Rightarrow>
          (case dial w (User repo) (Host repo) (Port repo) auth of
             Some err \<Rightarrow> Inl err
           | None \<Rightarrow> Inr ()))"

definition NewSftp :: "world \<Rightarrow> error + unit" where
  "NewSftp w = (case sftp_session w of Some err \<Rightarrow> Inl err | None \<Rightarrow> Inr ())"

text \<open>
  The SFTP client's \<open>ReadDir\<close> returns the entries in the server's order and leaves out
  \<open>.\<close> and \<open>..\<close>; its \<open>Stat\<close>, \<open>Lstat\<close>, \<open>Open\<close> and \<open>Create\<close> are the operations above on
  the server's file system.
\<close>

definition sftp_ReadDir :: "fsys \<Rightarrow> string \<Rightarrow> error + FileInfo list" where
  "sftp_ReadDir fs s =
     (case list_dir fs s of
        Inl e \<Rightarrow> Inl e
      | Inr files \<Rightarrow> Inr (filter (\<lambda>f. Name f \<noteq> ''.'' \<and> Name f \<noteq> ''..'') files))"

definition showRepository :: "world \<Rightarrow> Config \<Rightarrow> nat option \<times> world" where
  "showRepository w config =
     (let repo = fst (map_index (Repositories config) (Current config))
      in if Type repo = ''local'' \<or> Type repo = ''network'' then
           (case ReadDir (lfs w) (Path repo) of
              Inl err \<Rightarrow> (Some 1, Print w (''Error reading repository: '' @ error_text err @ nl))
            | Inr files \<Rightarrow> (None, print_files w files))
         else if Type repo = ''ssh'' then
           (case getSSHClient w repo of
              Inl err \<Rightarrow> (Some 1, Print w (''Error connecting to SSH server: '' @ error_text err @ nl))
            | Inr client \<Rightarrow>
                (case NewSftp w of
                   Inl err \<Rightarrow> (Some 1, Print w (''Error creating SFTP client: '' @ error_text err @ nl))
                 | Inr sftp \<Rightarrow>
                     (case sftp_ReadDir (rfs w) (Path repo) of
                        Inl err \<Rightarrow>
                          (Some 1, Print w (''Error reading remote directory: '' @ error_text err @ nl))
                      | Inr files \<Rightarrow> (None, print_files w files))))
         else (None, Print w (''Repository type '' @ squote (Type repo) @ '' not implemented yet.'' @ nl)))"

subsection \<open>The local copy\<close>

text \<open>
  \<open>copy\<close> calls itself for every entry of a directory. Its first argument bounds the depth
  of these calls: with too small a bound, or when the calls never end, the result is
  \<open>None\<close>. \<open>copy_entries\<close> is the loop over the entries, given the function to call.
\<close>

fun copy_entries ::
  "(fsys \<Rightarrow> string \<Rightarrow> string \<Rightarrow> (error option \<times> fsys) option)
    \<Rightarrow> fsys \<Rightarrow> string \<Rightarrow> string \<Rightarrow> FileInfo list \<Rightarrow> (error option \<times> fsys) option" where
  "copy_entries call fs src dest [] = Some (None, fs)"
| "copy_entries call fs src dest (file # files) =
     (case call fs (Join src (Name file)) (Join dest (Name file)) of
        None \<Rightarrow> None
      | Some (Some err, fs') \<Rightarrow> Some (Some err, fs')
      | Some (None, fs') \<Rightarrow> copy_entries call fs' src dest files)"

primrec copy :: "nat \<Rightarrow> fsys \<Rightarrow> string \<Rightarrow> string \<Rightarrow> (error option \<times> fsys) option" where
  "copy 0 fs src dest = None"
| "copy (Suc n) fs src dest =
     (case Stat fs src of
        Inl err \<Rightarrow> Some (Some err, fs)
      | Inr srcInfo \<Rightarrow>
          if IsDir srcInfo then
            (case MkdirAll fs dest (Mode srcInfo) of
               Inl err \<Rightarrow> Some (Some err, fs)
             | Inr fs1 \<Rightarrow>
                 (case ReadDir fs1 src of
                    Inl err \<Rightarrow> Some (Some err, fs1)
                  | Inr files \<Rightarrow> copy_entries (copy n) fs1 src dest files))
          else
            (case Open fs src of
               Inl err \<Rightarrow> Some (Some err, fs)
             | Inr srcFile \<Rightarrow>
                 (case Create fs dest of
                    Inl err \<Rightarrow> Some (Some err, fs)
                  | Inr (destFile, fs1) \<Rightarrow>
                      (case io_Copy fs1 destFile fs1 srcFile of
                         (Some err, fs2) \<Rightarrow> Some (Some err, fs2)
                       | (None, fs2) \<Rightarrow> Some (None, fs2)))))"

subsection \<open>The download over SFTP\<close>

definition downloadFile :: "world \<Rightarrow> string \<Rightarrow> string \<Rightarrow> error option \<times> world" where
  "downloadFile w remotePath localPath =
     (case Open (rfs w) remotePath of
        Inl err \<Rightarrow> (Some (Wrapped ''could not open remote file: '' err), w)
      | Inr remoteFile \<Rightarrow>
          (case Create (lfs w) localPath of
             Inl err \<Rightarrow> (Some (Wrapped ''could not create local file: '' err), w)
           | Inr (localFile, fs1) \<Rightarrow>
               (case io_Copy fs1 localFile (rfs w) remoteFile of
                  (Some err, fs2) \<Rightarrow> (Some (Wrapped ''could not copy file contents: '' err), w\<lparr>lfs := fs2\<rparr>)
                | (None, fs2) \<Rightarrow>
                    (None, Print (w\<lparr>lfs := fs2\<rparr>) (''Downloaded file '' @ squote remotePath @ nl)))))"

text \<open>
  The walker of \<open>sftp.Walk\<close> (package \<open>kr/fs\<close>): a stack of items still to visit, the item
  it stands on, and whether the next step descends into it. A step into a directory reads
  it and pushes its entries, the first one on top, each under the \<open>Join\<close> of the
  directory's path and the entry's name; a directory that cannot be read is visited once
  more, with the error.
\<close>

record item =
  ipath :: string
  iinfo :: "FileInfo option"
  ierr :: "error option"

record walker =
  wstack :: "item list"
  wcur :: item
  wdescend :: bool

definition Walk :: "fsys \<Rightarrow> string \<Rightarrow> walker" where
  "Walk fs root =
     \<lparr>wstack =
        [case Stat fs root of
           Inl err \<Rightarrow> \<lparr>ipath = root, iinfo = None, ierr = Some err\<rparr>
         | Inr info \<Rightarrow> \<lparr>ipath = root, iinfo = Some info, ierr = None\<rparr>],
      wcur = \<lparr>ipath = [], iinfo = None, ierr = None\<rparr>,
      wdescend = False\<rparr>"

definition Step :: "fsys \<Rightarrow> walker \<Rightarrow> bool \<times> walker" where
  "Step fs wk =
     (let wk1 =
        (if wdescend wk \<and> ierr (wcur wk) = None
            \<and> (case iinfo (wcur wk) of None \<Rightarrow> False | Some info \<Rightarrow> IsDir info)
         then
           (case sftp_ReadDir fs (ipath (wcur wk)) of
              Inl err \<Rightarrow>
                wk\<lparr>wcur := (wcur wk)\<lparr>ierr := Some err\<rparr>,
                   wstack := (wcur wk)\<lparr>ierr := Some err\<rparr> # wstack wk\<rparr>
            | Inr list \<Rightarrow>
                wk\<lparr>wstack :=
                     map (\<lambda>f. \<lparr>ipath = Join (ipath (wcur wk)) (Name f), iinfo = Some f, ierr = None\<rparr>) list
                     @ wstack wk\<rparr>)
         else wk)
      in case wstack wk1 of
           [] \<Rightarrow> (False, wk1)
         | it # st \<Rightarrow> (True, wk1\<lparr>wcur := it, wstack := st, wdescend := True\<rparr>))"

text \<open>
  The loop of \<open>downloadDirectory\<close> over the steps of the walker; the first argument bounds
  the number of steps. The result is \<open>Inl\<close> when the run panics: the slice
  \<open>walker.Path()[len(remotePath):]\<close> of a path shorter than \<open>remotePath\<close> is out of range.
\<close>

fun download_loop ::
  "nat \<Rightarrow> world \<Rightarrow> walker \<Rightarrow> string \<Rightarrow> string \<Rightarrow> ((string + error option) \<times> world) option" where
  "download_loop 0 w walker remotePath localPath = None"
| "download_loop (Suc n) w walker remotePath localPath =
     (case Step (rfs w) walker of
        (False, walker') \<Rightarrow> Some (Inr None, w)
      | (True, walker') \<Rightarrow>
          (case ierr (wcur walker') of
             Some err \<Rightarrow> Some (Inr (Some (Wrapped ''error walking remote directory: '' err)), w)
           | None \<Rightarrow>
               if length (ipath (wcur walker')) < length remotePath
               then Some (Inl ''slice bounds out of range'', w)
               else if drop (length remotePath) (ipath (wcur walker')) = []
               then download_loop n w walker' remotePath localPath
               else if (case iinfo (wcur walker') of None \<Rightarrow> False | Some info \<Rightarrow> IsDir info) then
                 (case MkdirAll (lfs w) (Join localPath (drop (length remotePath) (ipath (wcur walker')))) 511 of
                    Inl err \<Rightarrow> Some (Inr (Some (Wrapped ''could not create local subdirectory: '' err)), w)
                  | Inr fs1 \<Rightarrow>
                      download_loop n
                        (Print (w\<lparr>lfs := fs1\<rparr>)
                           (''Created directory ''
                            @ squote (Join localPath (drop (length remotePath) (ipath (wcur walker')))) @ nl))
                        walker' remotePath localPath)
               else
                 (case downloadFile w (ipath (wcur walker'))
                         (Join localPath (drop (length remotePath) (ipath (wcur walker')))) of
                    (Some err, w') \<Rightarrow> Some (Inr (Some err), w')
                  | (None, w') \<Rightarrow> download_loop n w' walker' remotePath localPath)))"

definition downloadDirectory ::
  "nat \<Rightarrow> world \<Rightarrow> string \<Rightarrow> string \<Rightarrow> ((string + error option) \<times> world) option" where
  "downloadDirectory fuel w remotePath localPath =
     (case MkdirAll (lfs w) localPath 511 of
        Inl err \<Rightarrow> Some (Inr (Some (Wrapped ''could not create local directory: '' err)), w)
      | Inr fs1 \<Rightarrow>
          download_loop fuel
            (Print (w\<lparr>lfs := fs1\<rparr>) (''Created directory '' @ squote localPath @ nl))
            (Walk (rfs w) remotePath) remotePath localPath)"


subsection \<open>The commands \<open>get\<close>, \<open>put\<close> and \<open>cd\<close>\<close>

text \<open>
  \<open>get\<close> and \<open>put\<close> return \<open>None\<close> when the copy or the download does not return within
  the bound; a run that panics ends with status 2.
\<close>

definition getRepository :: "nat \<Rightarrow> world \<Rightarrow> Config \<Rightarrow> string \<Rightarrow> (nat option \<times> world) option" where
  "getRepository fuel w config name =
     (let repo = fst (map_index (Repositories config) (Current config))
      in if Type repo = ''local'' \<or> Type repo = ''network'' then
           (case Getwd (lfs w) of
              Inl err \<Rightarrow> Some (Some 1, Print w (''Error getting current directory: '' @ error_text err @ nl))
            | Inr destPath \<Rightarrow>
                (case copy fuel (lfs w) (Join (Path repo) name) (Join destPath name) of
                   None \<Rightarrow> None
                 | Some (Some err, fs) \<Rightarrow>
                     Some (Some 1, Print (w\<lparr>lfs := fs\<rparr>) (''Error getting file or folder: '' @ error_text err @ nl))
                 | Some (None, fs) \<Rightarrow> Some (None, w\<lparr>lfs := fs\<rparr>)))
         else if Type repo = ''ssh'' then
           (case getSSHClient w repo of
              Inl err \<Rightarrow> Some (Some 1, Print w (''Error connecting to SSH server: '' @ error_text err @ nl))
            | Inr client \<Rightarrow>
                (case NewSftp w of
                   Inl err \<Rightarrow> Some (Some 1, Print w (''Error creating SFTP client: '' @ error_text err @ nl))
                 | Inr sftp \<Rightarrow>
                     (case Getwd (lfs w) of
                        Inl err \<Rightarrow>
                          Some (Some 1, Print w (''Error getting current directory: '' @ error_text err @ nl))
                      | Inr localPath \<Rightarrow>
                          (case Stat (rfs w) (ToSlash (Join (Path repo) name)) of
                             Inl err \<Rightarrow>
                               Some (Some 1, Print w (''Error getting remote file info: '' @ error_text err @ nl))
                           | Inr remoteStat \<Rightarrow>
                               (case (if IsDir remoteStat
                                      then downloadDirectory fuel w (ToSlash (Join (Path repo) name)) (Join localPath name)
                                      else (case downloadFile w (ToSlash (Join (Path repo) name)) (Join localPath name) of
                                              (err, w') \<Rightarrow> Some (Inr err, w'))) of
                                  None \<Rightarrow> None
                                | Some (Inl panic, w') \<Rightarrow> Some (Some 2, w')
                                | Some (Inr (Some err), w') \<Rightarrow>
                                    Some (Some 1,
                                          Print w' (''Error during '' @ squote ''get'' @ '' operation: '' @ error_text err @ nl))
                                | Some (Inr None, w') \<Rightarrow> Some (None, w'))))))
         else Some (None, Print w (''Repository type '' @ squote (Type repo)
                                   @ '' not implemented yet for '' @ squote ''get'' @ ''.'' @ nl)))"

text \<open>
  \<open>client.Upload\<close> of \<open>goph\<close>: the local path is opened, an SFTP session is started, the
  remote file is created and the bytes are copied.
\<close>

definition Upload :: "world \<Rightarrow> string \<Rightarrow> string \<Rightarrow> error option \<times> world" where
  "Upload w localPath remotePath =
     (case Open (lfs w) localPath of
        Inl err \<Rightarrow> (Some err, w)
      | Inr localFile \<Rightarrow>
          (case NewSftp w of
             Inl err \<Rightarrow> (Some err, w)
           | Inr ftp \<Rightarrow>
               (case Create (rfs w) remotePath of
                  Inl err \<Rightarrow> (Some err, w)
                | Inr (remoteFile, fs1) \<Rightarrow>
                    (case io_Copy fs1 remoteFile (lfs w) localFile of
                       (err, fs2) \<Rightarrow> (err, w\<lparr>rfs := fs2\<rparr>)))))"

definition putRepository :: "nat \<Rightarrow> world \<Rightarrow> Config \<Rightarrow> string \<Rightarrow> (nat option \<times> world) option" where
  "putRepository fuel w config name =
     (let repo = fst (map_index (Repositories config) (Current config))
      in if Type repo = ''local'' \<or> Type repo = ''network'' then
           (case Abs (lfs w) name of
              Inl err \<Rightarrow> Some (Some 1, Print w (''Error getting absolute path: '' @ error_text err @ nl))
            | Inr srcPath \<Rightarrow>
                (case copy fuel (lfs w) srcPath (Join (Path repo) name) of
                   None \<Rightarrow> None
                 | Some (Some err, fs) \<Rightarrow>
                     Some (Some 1, Print (w\<lparr>lfs := fs\<rparr>) (''Error putting file or folder: '' @ error_text err @ nl))
                 | Some (None, fs) \<Rightarrow> Some (None, w\<lparr>lfs := fs\<rparr>)))
         else if Type repo = ''ssh'' then
           (case getSSHClient w repo of
              Inl err \<Rightarrow> Some (Some 1, Print w (''Error connecting to SSH server: '' @ error_text err @ nl))
            | Inr client \<Rightarrow>
                (case Abs (lfs w) name of
                   Inl err \<Rightarrow> Some (Some 1, Print w (''Error getting absolute path: '' @ error_text err @ nl))
                 | Inr localPath \<Rightarrow>
                     (case Upload w localPath (ToSlash (Join (Path repo) name)) of
                        (Some err, w') \<Rightarrow>
                          Some (Some 1, Print w' (''Error uploading file: '' @ error_text err @ nl))
                      | (None, w') \<Rightarrow> Some (None, w'))))
         else Some (None, Print w (''Repository type '' @ squote (Type repo)
                                   @ '' not implemented yet for '' @ squote ''put'' @ ''.'' @ nl)))"

text \<open>
  The end of \<open>changeDirectory\<close>, after the \<open>switch\<close>: the changed copy of the repository is
  stored under the current name and the configuration is saved. Storing into a nil map
  panics.
\<close>

definition store_and_save :: "world \<Rightarrow> Config \<Rightarrow> Repository \<Rightarrow> nat option \<times> Config \<times> world" where
  "store_and_save w config repo =
     (case Repositories config of
        None \<Rightarrow> (Some 2, config, w)
      | Some al \<Rightarrow>
          (case saveConfig w (config\<lparr>Repositories := Some (set_key (Current config) repo al)\<rparr>) of
             (Some err, w') \<Rightarrow>
               (Some 1, config\<lparr>Repositories := Some (set_key (Current config) repo al)\<rparr>,
                Print w' (''Error saving configuration: '' @ error_text err @ nl))
           | (None, w') \<Rightarrow>
               (None, config\<lparr>Repositories := Some (set_key (Current config) repo al)\<rparr>,
                Print w' (''Changed directory to '' @ squote (Path repo) @ nl))))"

definition changeDirectory :: "world \<Rightarrow> Config \<Rightarrow> string \<Rightarrow> nat option \<times> Config \<times> world" where
  "changeDirectory w config newDir =
     (let repo = fst (map_index (Repositories config) (Current config))
      in if Type repo = ''local'' \<or> Type repo = ''network'' then
           (case Stat (lfs w) (Join (Path repo) newDir) of
              Inl err \<Rightarrow>
                (Some 1, config,
                 Print w (''Error accessing path '' @ squote (Join (Path repo) newDir) @ '': '' @ error_text err @ nl))
            | Inr info \<Rightarrow>
                if \<not> IsDir info
                then (Some 1, config,
                      Print w (''Error: '' @ squote (Join (Path repo) newDir) @ '' is not a directory.'' @ nl))
                else store_and_save w config (repo\<lparr>Path := Join (Path repo) newDir\<rparr>))
         else if Type repo = ''ssh'' then
           (let repo1 = (if Path repo = [] then repo\<lparr>Path := ''.''\<rparr> else repo)
            in case getSSHClient w repo1 of
                 Inl err \<Rightarrow>
                   (Some 1, config, Print w (''Error connecting to SSH server: '' @ error_text err @ nl))
               | Inr client \<Rightarrow>
                   (case NewSftp w of
                      Inl err \<Rightarrow>
                        (Some 1, config, Print w (''Error creating SFTP client: '' @ error_text err @ nl))
                    | Inr sftp \<Rightarrow>
                        (case Stat (rfs w) (ToSlash (Join (Path repo1) newDir)) of
                           Inl err \<Rightarrow>
                             (Some 1, config,
                              Print w (''Error accessing remote path '' @ squote (ToSlash (Join (Path repo1) newDir))
                                       @ '': '' @ error_text err @ nl))
                         | Inr info \<Rightarrow>
                             if \<not> IsDir info
                             then (Some 1, config,
                                   Print w (''Error: remote path '' @ squote (ToSlash (Join (Path repo1) newDir))
                                            @ '' is not a directory.'' @ nl))
                             else store_and_save w config (repo1\<lparr>Path := ToSlash (Join (Path repo1) newDir)\<rparr>))))
         else (None, config,
               Print w (''Repository type '' @ squote (Type repo)
                        @ '' not implemented yet for '' @ squote ''cd'' @ ''.'' @ nl)))"

subsection \<open>\<open>main\<close>\<close>

definition usage :: "string list" where
  "usage =
     [''Usage: 0s <command>'' @ nl,
      ''Commands:'' @ nl,
      ''  list       - List all available repositories'' @ nl,
      ''  set <repo> - Set the current repository'' @ nl,
      ''  show       - Show files in the current repository'' @ nl,
      ''  cd <dir>   - Change the current directory for the repository'' @ nl,
      ''  get <name> - Get a file or folder from the current repository'' @ nl,
      ''  put <name> - Put a file or folder in the current repository'' @ nl]"

definition printUsage :: "world \<Rightarrow> world" where
  "printUsage w = foldl Print w usage"

definition status :: "nat option \<Rightarrow> nat" where
  "status ex = (case ex of None \<Rightarrow> 0 | Some code \<Rightarrow> code)"

text \<open>
  \<open>main fuel w args\<close>: the exit status and the world after a run with the arguments
  \<open>args\<close> (\<open>os.Args[1:]\<close>); \<open>None\<close> when the run does not end within the bound.
\<close>

definition main :: "nat \<Rightarrow> world \<Rightarrow> string list \<Rightarrow> (nat \<times> world) option" where
  "main fuel w args =
     (case loadConfig w of
        Inl err \<Rightarrow> Some (1, Print w (''Error loading configuration: '' @ error_text err @ nl))
      | Inr config \<Rightarrow>
          (case args of
             [] \<Rightarrow> Some (1, printUsage w)
           | cmd # rest \<Rightarrow>
               if cmd = ''list'' then Some (0, listRepositories w config)
               else if cmd = ''set'' then
                 (case rest of
                    [] \<Rightarrow> Some (1, Print w (''Please specify a repository to set.'' @ nl))
                  | name # _ \<Rightarrow> (case setRepository w config name of (ex, c, w') \<Rightarrow> Some (status ex, w')))
               else if cmd = ''show'' then
                 (case showRepository w config of (ex, w') \<Rightarrow> Some (status ex, w'))
               else if cmd = ''get'' then
                 (case rest of
                    [] \<Rightarrow> Some (1, Print w (''Please specify a file or folder to get.'' @ nl))
                  | name # _ \<Rightarrow> map_option (\<lambda>r. (status (fst r), snd r)) (getRepository fuel w config name))
               else if cmd = ''put'' then
                 (case rest of
                    [] \<Rightarrow> Some (1, Print w (''Please specify a file or folder to put.'' @ nl))
                  | name # _ \<Rightarrow> map_option (\<lambda>r. (status (fst r), snd r)) (putRepository fuel w config name))
               else if cmd = ''cd'' then
                 (case rest of
                    [] \<Rightarrow> Some (1, Print w (''Please specify a directory to change to.'' @ nl))
                  | newDir # _ \<Rightarrow> (case changeDirectory w config newDir of (ex, c, w') \<Rightarrow> Some (status ex, w')))
               else Some (0, printUsage w)))"


section \<open>What the properties speak about\<close>

text \<open>
  What a path holds, as the claims see it: a regular file with its bytes, a directory, or
  nothing. Permission bits and the order of a directory's entries are left out.
\<close>

datatype entry = IsFile string | IsDirectory

definition entry_of :: "node \<Rightarrow> entry" where
  "entry_of n = (case n of File m b \<Rightarrow> IsFile b | Dir m es \<Rightarrow> IsDirectory)"

definition at :: "node \<Rightarrow> path \<Rightarrow> entry option" where
  "at t p = map_option entry_of (lookup t p)"

text \<open>The bytes of the configuration file, when it is there.\<close>

definition persisted :: "world \<Rightarrow> string option" where
  "persisted w =
     (case namei (lfs w) ''config/config.json'' of
        Inl e \<Rightarrow> None
      | Inr p \<Rightarrow> (case lookup (tree (lfs w)) p of Some (File m b) \<Rightarrow> Some b | _ \<Rightarrow> None))"

text \<open>A name is a key of the map of repositories.\<close>

definition has_key :: "(string \<times> Repository) list option \<Rightarrow> string \<Rightarrow> bool" where
  "has_key m k = (case m of None \<Rightarrow> False | Some al \<Rightarrow> map_of al k \<noteq> None)"

text \<open>
  The name of a directory entry: not empty, without a separator, and neither \<open>.\<close> nor
  \<open>..\<close>. In a well-formed tree every directory has such names, each once.
\<close>

definition plain :: "string \<Rightarrow> bool" where
  "plain c = (c \<noteq> [] \<and> CHR ''/'' \<notin> set c \<and> c \<noteq> ''.'' \<and> c \<noteq> ''..'')"

fun wf_node :: "node \<Rightarrow> bool" where
  "wf_node (File m b) = True"
| "wf_node (Dir m es) =
     (distinct (map fst es) \<and> list_all (\<lambda>e. plain (fst e) \<and> wf_node (snd e)) es)"

fun height :: "node \<Rightarrow> nat" where
  "height (File m b) = 0"
| "height (Dir m es) = Suc (foldr (\<lambda>e h. max (height (snd e)) h) es 0)"

subsection \<open>Sample worlds\<close>

definition no_faults :: "sysop \<Rightarrow> string \<Rightarrow> errno option" where
  "no_faults op s = None"

definition sample_fs :: "node \<Rightarrow> path \<Rightarrow> fsys" where
  "sample_fs t d = \<lparr>tree = t, wd = d, fault = no_faults\<rparr>"

definition sample_world :: "node \<Rightarrow> node \<Rightarrow> world" where
  "sample_world lt rt =
     \<lparr>lfs = sample_fs lt [''home'', ''u''], rfs = sample_fs rt [''home'', ''me''],
      dial = (\<lambda>user addr port a. None), parse_key = (\<lambda>b. None), sftp_session = None, out = []\<rparr>"

text \<open>
  The local tree of the scenario of the specification: \<open>/tmp/r\<close> with \<open>a.txt\<close> and
  \<open>sub/b.txt\<close>, and the working directory \<open>/home/u\<close> with the configuration file.
\<close>

definition local_tree :: "string \<Rightarrow> node" where
  "local_tree conf =
     Dir 493
       [(''tmp'', Dir 493 [(''r'', Dir 493 [(''a.txt'', File 420 ''hi''),
                                            (''sub'', Dir 493 [(''b.txt'', File 420 ''bye'')])])]),
        (''home'', Dir 493 [(''u'', Dir 493 [(''config'', Dir 493 [(''config.json'', File 420 conf)])])])]"

definition remote_tree :: node where
  "remote_tree =
     Dir 493
       [(''home'', Dir 493 [(''me'', Dir 493 [(''a'', File 420 ''A''), (''ab'', File 420 ''AB''),
                                              (''d'', Dir 493 [(''x'', File 420 ''X'')])])])]"











definition blank_config :: string where
  "blank_config =
     ''{\"current\": \"\", \"repositories\": {\"\": {\"type\": \"local\", \"path\": \"/tmp/r\"}}}''"

definition blank_cfg :: Config where
  "blank_cfg = \<lparr>Current = [],
                Repositories = Some [([], zero_Repository\<lparr>Type := ''local'', Path := ''/tmp/r''\<rparr>)]\<rparr>"

definition blank_world :: world where
  "blank_world = sample_world (local_tree blank_config) remote_tree"

definition lost_config :: string where
  "lost_config =
     ''{\"current\": \"gone\", \"repositories\": {\"home\": {\"type\": \"local\", \"path\": \"/tmp/r\"}}}''"

definition lost_cfg :: Config where
  "lost_cfg = \<lparr>Current = ''gone'',
               Repositories = Some [(''home'', zero_Repository\<lparr>Type := ''local'', Path := ''/tmp/r''\<rparr>)]\<rparr>"

definition lost_world :: world where
  "lost_world = sample_world (local_tree lost_config) remote_tree"

definition broken_world :: world where
  "broken_world = sample_world (local_tree ''{'') remote_tree"

definition elem_ok :: "string \<Rightarrow> bool" where
  "elem_ok x = (x \<noteq> [] \<and> x \<noteq> ''.'' \<and> CHR ''/'' \<notin> set x)"










section \<open>Properties\<close>

subsection \<open>Paths of a tree\<close>

lemma map_of_set_key: "map_of (set_key c v es) k = (if k = c then Some v else map_of es k)"
  by (induction es) auto



lemma at_Dir_Cons: "at (Dir m es) (c # cs) = (case map_of es c of None \<Rightarrow> None | Some t \<Rightarrow> at t cs)"
  by (simp add: at_def split: option.splits)

lemma at_dir_iff: "at t p = Some IsDirectory \<longleftrightarrow> (\<exists>m es. lookup t p = Some (Dir m es))"
  by (cases "lookup t p") (auto simp: at_def entry_of_def split: node.splits)



lemma lookup_append: "lookup t (p @ q) = (case lookup t p of None \<Rightarrow> None | Some n \<Rightarrow> lookup n q)"
proof (induction p arbitrary: t)
  case Nil
  then show ?case by simp
next
  case (Cons c p)
  then show ?case by (cases t) (auto split: option.splits)
qed


lemma put_single: "put (Dir m es) [c] n = Dir m (set_key c n es)"
  by (simp split: option.splits)


lemma lookup_put_other:
  "\<not> prefix p q \<Longrightarrow> \<not> prefix q p \<Longrightarrow> lookup (put t p n) q = lookup t q"
proof (induction p arbitrary: t q)
  case Nil
  then show ?case by simp
next
  case (Cons c cs)
  then obtain d q' where q: "q = d # q'" by (cases q) auto
  show ?case
  proof (cases t)
    case (File m b)
    then show ?thesis by simp
  next
    case (Dir m es)
    show ?thesis
    proof (cases "d = c")
      case True
      with Cons.prems q have "\<not> prefix cs q'" "\<not> prefix q' cs" by auto
      then show ?thesis using Cons.IH[of q'] Dir q True
        by (auto simp: map_of_set_key split: option.splits)
    next
      case False
      then show ?thesis using Dir q by (auto simp: map_of_set_key split: option.splits)
    qed
  qed
qed










lemma dirs_kept_upd:
  "m p \<noteq> Some IsDirectory \<Longrightarrow> m q = Some IsDirectory \<Longrightarrow> (m(p \<mapsto> e)) q = Some IsDirectory"
  by auto



lemma put_root: "put t [] n = n"
  by simp


subsection \<open>Writing and reading back the configuration file\<close>



lemma saveConfig_rest:
  "saveConfig w config = (err, w') \<Longrightarrow>
     rfs w' = rfs w \<and> out w' = out w \<and> dial w' = dial w \<and> parse_key w' = parse_key w
     \<and> sftp_session w' = sftp_session w"
  by (auto simp: saveConfig_def split: prod.splits sum.splits)


lemma persisted_cong: "lfs w' = lfs w \<Longrightarrow> persisted w' = persisted w"
  by (simp add: persisted_def split: sum.splits)

lemma lfs_Print: "lfs (Print w s) = lfs w"
  by (simp add: Print_def)

lemma persisted_Print: "persisted (Print w s) = persisted w"
  by (rule persisted_cong) (rule lfs_Print)








subsection \<open>Exit statuses\<close>


lemma setRepository_status: "setRepository w c n = (ex, c', w') \<Longrightarrow> ex = None \<or> ex = Some 1"
  by (auto simp: setRepository_def split: if_splits prod.splits option.splits)

lemma showRepository_status: "showRepository w c = (ex, w') \<Longrightarrow> ex = None \<or> ex = Some 1"
  by (auto simp: showRepository_def Let_def split: if_splits sum.splits)

lemma getRepository_status:
  "getRepository fuel w c n = Some (ex, w') \<Longrightarrow> ex = None \<or> ex = Some 1 \<or> ex = Some 2"
  by (auto simp: getRepository_def Let_def split: if_splits sum.splits option.splits prod.splits)

lemma putRepository_status:
  "putRepository fuel w c n = Some (ex, w') \<Longrightarrow> ex = None \<or> ex = Some 1"
  by (auto simp: putRepository_def Let_def split: if_splits sum.splits option.splits prod.splits)

lemma changeDirectory_status:
  "changeDirectory w c d = (ex, c', w') \<Longrightarrow> ex = None \<or> ex = Some 1 \<or> ex = Some 2"
  by (auto simp: changeDirectory_def store_and_save_def Let_def
           split: if_splits sum.splits option.splits prod.splits)

lemma status_cases: "ex = None \<or> ex = Some 1 \<or> ex = Some 2 \<Longrightarrow> status ex = 0 \<or> status ex = 1 \<or> status ex = 2"
  by (auto simp: status_def)

lemma main_no_arg:
  "loadConfig w = Inr config \<Longrightarrow> cmd \<in> {''set'', ''get'', ''put'', ''cd''} \<Longrightarrow>
   \<exists>msg. main fuel w [cmd] = Some (1, Print w msg)"
  by (auto simp: main_def)

lemma main_with_arg:
  assumes "loadConfig w = Inr config"
  shows "main fuel w (''set'' # a # r) = (case setRepository w config a of (ex, c, w') \<Rightarrow> Some (status ex, w'))"
    and "main fuel w (''show'' # r') = (case showRepository w config of (ex, w') \<Rightarrow> Some (status ex, w'))"
    and "main fuel w (''get'' # a # r) = map_option (\<lambda>r. (status (fst r), snd r)) (getRepository fuel w config a)"
    and "main fuel w (''put'' # a # r) = map_option (\<lambda>r. (status (fst r), snd r)) (putRepository fuel w config a)"
    and "main fuel w (''cd'' # a # r) = (case changeDirectory w config a of (ex, c, w') \<Rightarrow> Some (status ex, w'))"
    and "main fuel w (''list'' # r') = Some (0, listRepositories w config)"
  using assms by (simp_all add: main_def)

lemma main_other:
  "loadConfig w = Inr config \<Longrightarrow> c \<noteq> ''list'' \<Longrightarrow> c \<noteq> ''set'' \<Longrightarrow> c \<noteq> ''show'' \<Longrightarrow>
   c \<noteq> ''get'' \<Longrightarrow> c \<noteq> ''put'' \<Longrightarrow> c \<noteq> ''cd'' \<Longrightarrow> main fuel w (c # rest) = Some (0, printUsage w)"
  by (simp add: main_def)

lemma main_status_set:
  assumes "loadConfig w = Inr config" and m: "main fuel w (''set'' # rest) = Some (code, w')"
  shows "code = 0 \<or> code = 1 \<or> code = 2"
proof (cases rest)
  case Nil
  from main_no_arg[OF assms(1), of "''set''" fuel] obtain msg
    where "main fuel w [''set''] = Some (1, Print w msg)" by blast
  then show ?thesis using m Nil by simp
next
  case (Cons a r)
  obtain ex c' w1 where e: "setRepository w config a = (ex, c', w1)" by (metis prod_cases3)
  then have "code = status ex" using m Cons main_with_arg(1)[OF assms(1)] by simp
  then show ?thesis using setRepository_status[OF e] by (auto simp: status_def)
qed

lemma main_status_show:
  assumes "loadConfig w = Inr config" and m: "main fuel w (''show'' # rest) = Some (code, w')"
  shows "code = 0 \<or> code = 1 \<or> code = 2"
proof -
  obtain ex w1 where e: "showRepository w config = (ex, w1)" by force
  then have "code = status ex" using m main_with_arg(2)[OF assms(1)] by simp
  then show ?thesis using showRepository_status[OF e] by (auto simp: status_def)
qed

lemma main_status_get:
  assumes "loadConfig w = Inr config" and m: "main fuel w (''get'' # rest) = Some (code, w')"
  shows "code = 0 \<or> code = 1 \<or> code = 2"
proof (cases rest)
  case Nil
  from main_no_arg[OF assms(1), of "''get''" fuel] obtain msg
    where "main fuel w [''get''] = Some (1, Print w msg)" by blast
  then show ?thesis using m Nil by simp
next
  case (Cons a r)
  then obtain ex where e: "getRepository fuel w config a = Some (ex, w')" and "code = status ex"
    using m main_with_arg(3)[OF assms(1), of fuel a r] by auto
  then show ?thesis using getRepository_status[OF e] by (auto simp: status_def)
qed

lemma main_status_put:
  assumes "loadConfig w = Inr config" and m: "main fuel w (''put'' # rest) = Some (code, w')"
  shows "code = 0 \<or> code = 1 \<or> code = 2"
proof (cases rest)
  case Nil
  from main_no_arg[OF assms(1), of "''put''" fuel] obtain msg
    where "main fuel w [''put''] = Some (1, Print w msg)" by blast
  then show ?thesis using m Nil by simp
next
  case (Cons a r)
  then obtain ex where e: "putRepository fuel w config a = Some (ex, w')" and "code = status ex"
    using m main_with_arg(4)[OF assms(1), of fuel a r] by auto
  then show ?thesis using putRepository_status[OF e] by (auto simp: status_def)
qed

lemma main_status_cd:
  assumes "loadConfig w = Inr config" and m: "main fuel w (''cd'' # rest) = Some (code, w')"
  shows "code = 0 \<or> code = 1 \<or> code = 2"
proof (cases rest)
  case Nil
  from main_no_arg[OF assms(1), of "''cd''" fuel] obtain msg
    where "main fuel w [''cd''] = Some (1, Print w msg)" by blast
  then show ?thesis using m Nil by simp
next
  case (Cons a r)
  obtain ex c' w1 where e: "changeDirectory w config a = (ex, c', w1)" by (metis prod_cases3)
  then have "code = status ex" using m Cons main_with_arg(5)[OF assms(1)] by simp
  then show ?thesis using changeDirectory_status[OF e] by (auto simp: status_def)
qed

lemma main_status:
  assumes l: "loadConfig w = Inr config" and m: "main fuel w args = Some (code, w')"
  shows "code = 0 \<or> code = 1 \<or> code = 2"
proof (cases args)
  case Nil
  then show ?thesis using m l by (simp add: main_def)
next
  case (Cons c rest)
  show ?thesis
  proof (cases "c = ''list''")
    case True
    then show ?thesis using m Cons main_with_arg(6)[OF l] by simp
  next
    case n1: False
    show ?thesis
    proof (cases "c = ''set''")
      case True
      then show ?thesis using main_status_set[OF l] m Cons by blast
    next
      case n2: False
      show ?thesis
      proof (cases "c = ''show''")
        case True
        then show ?thesis using main_status_show[OF l] m Cons by blast
      next
        case n3: False
        show ?thesis
        proof (cases "c = ''get''")
          case True
          then show ?thesis using main_status_get[OF l] m Cons by blast
        next
          case n4: False
          show ?thesis
          proof (cases "c = ''put''")
            case True
            then show ?thesis using main_status_put[OF l] m Cons by blast
          next
            case n5: False
            show ?thesis
            proof (cases "c = ''cd''")
              case True
              then show ?thesis using main_status_cd[OF l] m Cons by blast
            next
              case n6: False
              have "main fuel w args = Some (0, printUsage w)"
                unfolding Cons by (rule main_other[OF l n1 n2 n3 n4 n5 n6])
              then show ?thesis using m by simp
            qed
          qed
        qed
      qed
    qed
  qed
qed


lemma load_lost: "loadConfig lost_world = Inr lost_cfg"
  by code_simp

lemma load_blank: "loadConfig blank_world = Inr blank_cfg"
  by code_simp

subsection \<open>Path strings and their resolution\<close>

lemma split_sep_not_Nil: "split_sep s \<noteq> []"
  by (induction s) (auto split: list.splits)

lemma split_sep_no_sep: "CHR ''/'' \<notin> set c \<Longrightarrow> split_sep c = [c]"
  by (induction c) auto

lemma split_sep_append: "split_sep (a @ CHR ''/'' # b) = split_sep a @ split_sep b"
proof (induction a)
  case Nil
  then show ?case by simp
next
  case (Cons x a)
  then show ?case using split_sep_not_Nil[of a] by (cases "split_sep a") auto
qed

lemma split_sep_members: "x \<in> set (split_sep s) \<Longrightarrow> CHR ''/'' \<notin> set x"
proof (induction s arbitrary: x)
  case Nil
  then show ?case by simp
next
  case (Cons c s)
  then show ?case by (cases "split_sep s") (auto split: if_splits)
qed

lemma elements_members: "x \<in> set (elements s) \<Longrightarrow> elem_ok x"
  by (auto simp: elements_def elem_ok_def dest: split_sep_members)

lemma elements_Nil: "elements [] = []"
  by (simp add: elements_def)

lemma elements_append: "elements (a @ CHR ''/'' # b) = elements a @ elements b"
  by (simp add: elements_def split_sep_append)

lemma elements_single: "elem_ok c \<Longrightarrow> elements c = [c]"
  by (simp add: elements_def elem_ok_def split_sep_no_sep)

lemma plain_elem_ok: "plain c \<Longrightarrow> elem_ok c"
  by (simp add: plain_def elem_ok_def)

lemma elements_join_sep: "list_all elem_ok X \<Longrightarrow> elements (join_sep X) = X"
proof (induction X rule: join_sep.induct)
  case 1
  then show ?case by (simp add: elements_Nil)
next
  case (2 c)
  then show ?case by (simp add: elements_single)
next
  case (3 c d cs)
  then show ?case by (simp add: elements_append elements_single)
qed

lemma join_sep_Nil_iff: "list_all elem_ok X \<Longrightarrow> join_sep X = [] \<longleftrightarrow> X = []"
  by (induction X rule: join_sep.induct) (auto simp: elem_ok_def)

lemma join_sep_Cons: "\<exists>y. join_sep (x # xs) = x @ y"
  by (cases xs) auto

lemma join_sep_hd: "list_all elem_ok X \<Longrightarrow> X \<noteq> [] \<Longrightarrow> \<not> rooted (join_sep X)"
proof -
  assume ok: "list_all elem_ok X" and "X \<noteq> []"
  then obtain x xs where X: "X = x # xs" by (cases X) auto
  then obtain y where y: "join_sep X = x @ y" using join_sep_Cons by blast
  have "x \<noteq> []" "CHR ''/'' \<notin> set x" using ok X by (auto simp: elem_ok_def)
  then show ?thesis unfolding y by (cases x) (auto simp: rooted_def)
qed

lemma dotdot_subset: "set (dotdot r st cs) \<subseteq> set st \<union> set cs"
proof (induction cs arbitrary: st)
  case Nil
  then show ?case by simp
next
  case (Cons c cs)
  have "set (butlast st) \<subseteq> set st" by (simp add: in_set_butlastD subsetI)
  then show ?case using Cons[of "butlast st"] Cons[of st] Cons[of "st @ [c]"]
    by (auto split: if_splits)
qed

lemma dotdot_elem_ok: "list_all elem_ok cs \<Longrightarrow> list_all elem_ok (dotdot r [] cs)"
  using dotdot_subset[of r "[]" cs] by (auto simp: list_all_iff)

lemma dotdot_snoc: "c \<noteq> ''..'' \<Longrightarrow> dotdot r st (cs @ [c]) = dotdot r st cs @ [c]"
  by (induction cs arbitrary: st) auto

lemma elements_elem_ok: "list_all elem_ok (elements s)"
  by (simp add: list_all_iff elements_members)

lemma Clean_not_Nil: "Clean s \<noteq> []"
  by (simp add: Clean_def Let_def)

lemma rooted_Clean: "s \<noteq> [] \<Longrightarrow> rooted (Clean s) = rooted s"
proof -
  assume s: "s \<noteq> []"
  let ?X = "dotdot (rooted s) [] (elements s)"
  have ok: "list_all elem_ok ?X" by (rule dotdot_elem_ok[OF elements_elem_ok])
  show ?thesis
  proof (cases "rooted s")
    case True
    then show ?thesis using s by (simp add: Clean_def Let_def rooted_def)
  next
    case False
    show ?thesis
    proof (cases "?X = []")
      case True
      then show ?thesis using s False by (simp add: Clean_def Let_def rooted_def)
    next
      case nX: False
      then have "join_sep ?X \<noteq> []" using join_sep_Nil_iff[OF ok] by simp
      then show ?thesis using s False join_sep_hd[OF ok nX] by (simp add: Clean_def Let_def)
    qed
  qed
qed

lemma elements_Clean: "s \<noteq> [] \<Longrightarrow> elements (Clean s) = dotdot (rooted s) [] (elements s)"
proof -
  assume s: "s \<noteq> []"
  let ?X = "dotdot (rooted s) [] (elements s)"
  have ok: "list_all elem_ok ?X" by (rule dotdot_elem_ok[OF elements_elem_ok])
  show ?thesis
  proof (cases "rooted s")
    case True
    have "elements (CHR ''/'' # join_sep ?X) = ?X"
      using elements_append[of "[]" "join_sep ?X"] elements_join_sep[OF ok] by (simp add: elements_Nil)
    then show ?thesis using s True by (simp add: Clean_def Let_def)
  next
    case False
    show ?thesis
    proof (cases "?X = []")
      case True
      then show ?thesis using s False by (simp add: Clean_def Let_def elements_def)
    next
      case nX: False
      then have "join_sep ?X \<noteq> []" using join_sep_Nil_iff[OF ok] by simp
      then show ?thesis using s False elements_join_sep[OF ok] by (simp add: Clean_def Let_def)
    qed
  qed
qed

lemma walk_append:
  "walk t a (xs @ ys) = (case walk t a xs of Inl e \<Rightarrow> Inl e | Inr b \<Rightarrow> walk t b ys)"
  by (induction xs arbitrary: a) (auto split: option.splits node.splits)

lemma walk_snoc_name:
  assumes "walk t a (xs @ [x]) = Inr cur" and "x \<noteq> ''..''"
  shows "\<exists>cur'. walk t a xs = Inr cur' \<and> cur = cur' @ [x]"
  using assms by (auto simp: walk_append split: sum.splits option.splits node.splits)

lemma walk_dotdot_gen:
  assumes "walk t start st = Inr cur" and "walk t cur cs = Inr p"
    and "r \<Longrightarrow> start = [] \<and> ''..'' \<notin> set st"
  shows "walk t start (dotdot r st cs) = Inr p"
  using assms
proof (induction cs arbitrary: st cur)
  case Nil
  then show ?case by simp
next
  case (Cons c cs)
  from Cons.prems(2) obtain m es where d: "lookup t cur = Some (Dir m es)"
    by (auto split: option.splits node.splits)
  show ?case
  proof (cases "c = ''..''")
    case False
    have 1: "walk t start (st @ [c]) = Inr (cur @ [c])"
      using Cons.prems(1) d False by (simp add: walk_append)
    have 2: "walk t (cur @ [c]) cs = Inr p" using Cons.prems(2) d False by simp
    have 3: "r \<Longrightarrow> start = [] \<and> ''..'' \<notin> set (st @ [c])" using Cons.prems(3) False by auto
    show ?thesis using Cons.IH[OF 1 2 3] False by simp
  next
    case True
    have 2: "walk t (butlast cur) cs = Inr p" using Cons.prems(2) d True by simp
    show ?thesis
    proof (cases "st \<noteq> [] \<and> last st \<noteq> ''..''")
      case pop: True
      then obtain st' x where st: "st = st' @ [x]" "x \<noteq> ''..''"
        by (metis append_butlast_last_id)
      from walk_snoc_name[OF Cons.prems(1)[unfolded st(1)] st(2)]
      obtain cur' where c': "walk t start st' = Inr cur'" "cur = cur' @ [x]" by blast
      have 1: "walk t start (butlast st) = Inr (butlast cur)" using c' st by simp
      have 3: "r \<Longrightarrow> start = [] \<and> ''..'' \<notin> set (butlast st)"
        using Cons.prems(3) by (auto dest: in_set_butlastD)
      show ?thesis using Cons.IH[OF 1 2 3] True pop by simp
    next
      case nopop: False
      show ?thesis
      proof (cases r)
        case True
        then have e: "st = []" using Cons.prems(3) nopop by (cases st rule: rev_cases) auto
        then have "cur = []" using Cons.prems(1,3) True by simp
        then have 1: "walk t start st = Inr (butlast cur)" using Cons.prems(1) by simp
        show ?thesis using Cons.IH[OF 1 2 Cons.prems(3)] \<open>c = ''..''\<close> e True by simp
      next
        case False
        have 1: "walk t start (st @ [c]) = Inr (butlast cur)"
          using Cons.prems(1) d \<open>c = ''..''\<close> by (simp add: walk_append)
        show ?thesis using Cons.IH[OF 1 2] False \<open>c = ''..''\<close> nopop by auto
      qed
    qed
  qed
qed

lemma namei_Clean: "namei fs s = Inr p \<Longrightarrow> namei fs (Clean s) = Inr p"
proof -
  assume a: "namei fs s = Inr p"
  then have s: "s \<noteq> []" by (auto simp: namei_def)
  let ?start = "if rooted s then [] else wd fs"
  have w: "walk (tree fs) ?start (elements s) = Inr p" using a s by (simp add: namei_def)
  have "walk (tree fs) ?start (dotdot (rooted s) [] (elements s)) = Inr p"
    by (rule walk_dotdot_gen[OF _ w]) auto
  then show ?thesis using s
    by (simp add: namei_def Clean_not_Nil rooted_Clean elements_Clean)
qed

lemma rooted_append: "s \<noteq> [] \<Longrightarrow> rooted (s @ x) = rooted s"
  by (cases s) (auto simp: rooted_def)

lemma namei_Join:
  assumes "namei fs s = Inr p" and "at (tree fs) p = Some IsDirectory" and "plain c"
  shows "namei fs (Join s c) = Inr (p @ [c])"
proof -
  from assms(1) have s: "s \<noteq> []" by (auto simp: namei_def)
  obtain m es where d: "lookup (tree fs) p = Some (Dir m es)"
    using assms(2) by (cases "lookup (tree fs) p") (auto simp: at_def entry_of_def split: node.splits)
  have c: "c \<noteq> ''..''" "elements c = [c]"
    using assms(3) elements_single[OF plain_elem_ok[OF assms(3)]] by (auto simp: plain_def)
  have "namei fs (s @ CHR ''/'' # c) = Inr (p @ [c])"
    using assms(1) s d c by (simp add: namei_def rooted_append elements_append walk_append)
  then have "namei fs (Clean (s @ CHR ''/'' # c)) = Inr (p @ [c])" by (rule namei_Clean)
  then show ?thesis using s by (simp add: Join_def)
qed

lemma elements_Join: "s \<noteq> [] \<Longrightarrow> plain c \<Longrightarrow> elements (Join s c) \<noteq> []"
proof -
  assume s: "s \<noteq> []" and p: "plain c"
  have c: "c \<noteq> ''..''" "elements c = [c]"
    using p elements_single[OF plain_elem_ok[OF p]] by (auto simp: plain_def)
  have "elements (Join s c) = dotdot (rooted (s @ CHR ''/'' # c)) [] (elements s @ [c])"
    using s c by (simp add: Join_def elements_Clean elements_append)
  then show ?thesis using c by (simp add: dotdot_snoc)
qed

subsection \<open>Operations that succeed\<close>

lemma no_faults_None: "fault fs = no_faults \<Longrightarrow> fault fs opn s = None"
  by (simp add: no_faults_def)

lemma Stat_found:
  "fault fs = no_faults \<Longrightarrow> namei fs s = Inr p \<Longrightarrow> lookup (tree fs) p = Some n \<Longrightarrow>
   Stat fs s = Inr (info_of (base_name p) n)"
  by (simp add: Stat_def no_faults_def)

lemma set_insert_by_name: "set (insert_by_name f gs) = insert f (set gs)"
  by (induction gs) auto

lemma set_sort_by_name: "set (sort_by_name xs) = set xs"
  by (induction xs) (auto simp: sort_by_name_def set_insert_by_name)

lemma distinct_insert_by_name:
  "distinct (map Name (insert_by_name f gs)) \<longleftrightarrow> Name f \<notin> Name ` set gs \<and> distinct (map Name gs)"
  by (induction gs) (auto simp: set_insert_by_name)

lemma distinct_sort_by_name:
  "distinct (map Name xs) \<Longrightarrow> distinct (map Name (sort_by_name xs))"
proof (induction xs)
  case Nil
  then show ?case by (simp add: sort_by_name_def)
next
  case (Cons x xs)
  then have "distinct (map Name (sort_by_name xs))" by simp
  moreover have "Name x \<notin> Name ` set (sort_by_name xs)" using Cons.prems by (simp add: set_sort_by_name)
  ultimately show ?case
    using distinct_insert_by_name[of x "sort_by_name xs"] by (simp add: sort_by_name_def)
qed

lemma ReadDir_found:
  "fault fs = no_faults \<Longrightarrow> namei fs s = Inr p \<Longrightarrow> lookup (tree fs) p = Some (Dir m es) \<Longrightarrow>
   ReadDir fs s = Inr (sort_by_name (map (\<lambda>e. info_of (fst e) (snd e)) es))"
  by (simp add: ReadDir_def list_dir_def no_faults_def)

lemma Open_found:
  "fault fs = no_faults \<Longrightarrow> namei fs s = Inr p \<Longrightarrow> lookup (tree fs) p = Some n \<Longrightarrow>
   Open fs s = Inr (s, p)"
  by (simp add: Open_def no_faults_def)

lemma Create_new:
  "fault fs = no_faults \<Longrightarrow> namei fs s = Inr p \<Longrightarrow> lookup (tree fs) p = None \<Longrightarrow>
   Create fs s = Inr ((s, p), fs\<lparr>tree := put (tree fs) p (File 438 [])\<rparr>)"
  by (simp add: Create_def open_trunc_def no_faults_def)

lemma io_Copy_file:
  "fault fs = no_faults \<Longrightarrow> lookup (tree fs) p = Some (File m b) \<Longrightarrow>
   lookup (tree fs) q = Some (File m' old) \<Longrightarrow>
   io_Copy fs (d, q) fs (s, p) = (None, fs\<lparr>tree := put (tree fs) q (File m' b)\<rparr>)"
  by (simp add: io_Copy_def read_all_def write_all_def no_faults_def)

lemma lookup_put_same:
  "p \<noteq> [] \<Longrightarrow> at t (butlast p) = Some IsDirectory \<Longrightarrow> lookup (put t p n) p = Some n"
proof (induction p arbitrary: t)
  case Nil
  then show ?case by simp
next
  case (Cons c cs)
  from Cons.prems(2) obtain m es where t: "t = Dir m es"
    by (cases t; cases cs) (auto simp: at_def entry_of_def)
  show ?case
  proof (cases "cs = []")
    case True
    then show ?thesis using t by (simp add: map_of_set_key split: option.splits)
  next
    case False
    then obtain t' where t': "map_of es c = Some t'" "at t' (butlast cs) = Some IsDirectory"
      using Cons.prems(2) t by (auto simp: at_Dir_Cons split: option.splits)
    then show ?thesis using Cons.IH[OF False t'(2)] t by (simp add: map_of_set_key)
  qed
qed

lemma mkdirs_existing:
  "walk t cur cs = Inr p \<Longrightarrow> at t p = Some IsDirectory \<Longrightarrow> mkdirs perm t cur cs = Inr t"
proof (induction cs arbitrary: cur)
  case Nil
  then show ?case by (auto simp: at_dir_iff)
next
  case (Cons c cs)
  from Cons.prems(1) obtain m es where d: "lookup t cur = Some (Dir m es)"
    by (auto split: option.splits node.splits)
  show ?case
  proof (cases "c = ''..''")
    case True
    then show ?thesis using Cons d by simp
  next
    case False
    then have w: "walk t (cur @ [c]) cs = Inr p" using Cons.prems(1) d by simp
    have l: "lookup t (cur @ [c]) = map_of es c" using d by (simp add: lookup_append split: option.splits)
    have "map_of es c \<noteq> None"
    proof (cases cs)
      case Nil
      then show ?thesis using w Cons.prems(2) l by (auto simp: at_def)
    next
      case (Cons a list)
      then show ?thesis using w l by (auto split: option.splits)
    qed
    then show ?thesis using Cons.IH[OF w Cons.prems(2)] False d by auto
  qed
qed

lemma mkdirs_new:
  "walk t cur cs = Inr p \<Longrightarrow> lookup t p = None \<Longrightarrow> cs \<noteq> [] \<Longrightarrow>
   mkdirs perm t cur cs = Inr (put t p (Dir perm [])) \<and> p \<noteq> [] \<and> at t (butlast p) = Some IsDirectory"
proof (induction cs arbitrary: cur)
  case Nil
  then show ?case by simp
next
  case (Cons c cs)
  from Cons.prems(1) obtain m es where d: "lookup t cur = Some (Dir m es)"
    by (auto split: option.splits node.splits)
  have dcur: "at t cur = Some IsDirectory" using d by (auto simp: at_dir_iff)
  show ?case
  proof (cases "c = ''..''")
    case True
    then have w: "walk t (butlast cur) cs = Inr p" using Cons.prems(1) d by simp
    have "cs \<noteq> []"
    proof
      assume "cs = []"
      then have "p = butlast cur" using w by simp
      moreover have "lookup t (butlast cur) \<noteq> None"
        using d lookup_append[of t "butlast cur" "[last cur]"] by (cases "cur = []") (auto split: option.splits)
      ultimately show False using Cons.prems(2) by simp
    qed
    then show ?thesis using Cons.IH[OF w Cons.prems(2)] True d by simp
  next
    case False
    then have w: "walk t (cur @ [c]) cs = Inr p" using Cons.prems(1) d by simp
    have l: "lookup t (cur @ [c]) = map_of es c" using d by (simp add: lookup_append split: option.splits)
    show ?thesis
    proof (cases "map_of es c")
      case (Some n)
      have "cs \<noteq> []"
      proof
        assume "cs = []"
        then show False using w Cons.prems(2) l Some by simp
      qed
      then show ?thesis using Cons.IH[OF w Cons.prems(2)] False d Some by simp
    next
      case None
      have cs: "cs = []"
      proof (rule ccontr)
        assume "cs \<noteq> []"
        then obtain a r where "cs = a # r" by (cases cs) auto
        then show False using w l None by simp
      qed
      then have p: "p = cur @ [c]" using w by simp
      have "lookup (put t (cur @ [c]) (Dir perm [])) (cur @ [c]) = Some (Dir perm [])"
        by (rule lookup_put_same) (use dcur in auto)
      then show ?thesis using cs p False d None dcur by simp
    qed
  qed
qed

lemma MkdirAll_existing:
  "fault fs = no_faults \<Longrightarrow> namei fs s = Inr p \<Longrightarrow> at (tree fs) p = Some IsDirectory \<Longrightarrow>
   MkdirAll fs s perm = Inr fs"
  by (auto simp: MkdirAll_def namei_def no_faults_def mkdirs_existing split: if_splits)

lemma MkdirAll_new:
  assumes "fault fs = no_faults" and "namei fs s = Inr p" and "lookup (tree fs) p = None"
    and "elements s \<noteq> []"
  shows "MkdirAll fs s perm = Inr (fs\<lparr>tree := put (tree fs) p (Dir perm [])\<rparr>)
         \<and> p \<noteq> [] \<and> at (tree fs) (butlast p) = Some IsDirectory"
proof -
  from assms(2) have s: "s \<noteq> []"
    and w: "walk (tree fs) (if rooted s then [] else wd fs) (elements s) = Inr p"
    by (auto simp: namei_def split: if_splits)
  from mkdirs_new[OF w assms(3,4), of perm] show ?thesis
    using assms(1) s by (simp add: MkdirAll_def no_faults_def)
qed

subsection \<open>The exit status of the commands\<close>










section \<open>The claims\<close>








text \<open>
  Claim C9, amended. When the current name is not a key of the repositories (the map may
  be nil), \<open>show\<close>, \<open>get\<close>, \<open>put\<close> and \<open>cd\<close> report no missing repository: each prints that the
  repository type \<open>''\<close> is not implemented, the run ends with status 0, and the
  configuration file is as before.
\<close>

theorem unknown_current_not_implemented:
  assumes "loadConfig w = Inr config" and "\<not> has_key (Repositories config) (Current config)"
  shows "main fuel w [''show'']
           = Some (0, Print w (''Repository type '' @ squote [] @ '' not implemented yet.'' @ nl))
       \<and> main fuel w [''get'', name]
           = Some (0, Print w (''Repository type '' @ squote [] @ '' not implemented yet for '' @ squote ''get'' @ ''.'' @ nl))
       \<and> main fuel w [''put'', name]
           = Some (0, Print w (''Repository type '' @ squote [] @ '' not implemented yet for '' @ squote ''put'' @ ''.'' @ nl))
       \<and> main fuel w [''cd'', name]
           = Some (0, Print w (''Repository type '' @ squote [] @ '' not implemented yet for '' @ squote ''cd'' @ ''.'' @ nl))
       \<and> (\<forall>m. persisted (Print w m) = persisted w)"
proof -
  have z: "fst (map_index (Repositories config) (Current config)) = zero_Repository"
    using assms(2) by (auto simp: map_index_def has_key_def split: option.splits)
  have t: "Type zero_Repository = []" by (simp add: zero_Repository_def)
  show ?thesis using assms(1) z t
    by (simp add: main_def showRepository_def getRepository_def putRepository_def
          changeDirectory_def Let_def status_def persisted_Print)
qed

theorem unknown_current_witness:
  "loadConfig lost_world = Inr lost_cfg
   \<and> \<not> has_key (Repositories lost_cfg) (Current lost_cfg)
   \<and> main 0 lost_world [''show'']
        = Some (0, Print lost_world (''Repository type '' @ squote [] @ '' not implemented yet.'' @ nl))
   \<and> main 0 lost_world [''cd'', ''sub'']
        = Some (0, Print lost_world (''Repository type '' @ squote [] @ '' not implemented yet for '' @ squote ''cd'' @ ''.'' @ nl))"
proof -
  have n: "\<not> has_key (Repositories lost_cfg) (Current lost_cfg)" by code_simp
  note a = unknown_current_not_implemented[OF load_lost n, of 0 "''sub''"]
  show ?thesis
    by (intro conjI) (rule load_lost n a[THEN conjunct1] a[THEN conjunct2, THEN conjunct2, THEN conjunct2, THEN conjunct1])+
qed

text \<open>
  Claim C9 as stated also covers every configuration whose current name is empty. The
  empty string can be a key: with the entry \<open>"": {"type": "local", "path": "/tmp/r"}\<close> and
  an empty current name, \<open>show\<close> lists \<open>/tmp/r\<close>.
\<close>

theorem empty_current_counterexample:
  "(case loadConfig blank_world of Inl e \<Rightarrow> False | Inr c \<Rightarrow> Current c = [])
   \<and> map_option (\<lambda>r. (fst r, out (snd r))) (main 0 blank_world [''show''])
       = Some (0, [''a.txt'' @ nl, ''sub/'' @ nl])"
  by code_simp




text \<open>
  Claim C7 says that \<open>load\<close> returns an error when the configuration file is malformed.
  \<open>loadConfig\<close> drops the error of \<open>json.Unmarshal\<close>: for the file \<open>{\<close>, which is no JSON
  (\<open>Unmarshal\<close> reports a syntax error), it returns the zero configuration and no error.
\<close>

theorem loadConfig_accepts_malformed:
  "fst (Unmarshal ''{'' zero_Config) = Some SyntaxError
   \<and> persisted broken_world = Some ''{''
   \<and> loadConfig broken_world = Inr zero_Config"
  by code_simp

end
